theory Spec2Isabelle
  imports Main "HOL-Library.Sublist"
begin

section \<open>The Linode machine manager action: a model of index.js\<close>

text \<open>
  The action is one asynchronous function \<open>run\<close> with two helpers, \<open>waitForSSH\<close>
  and \<open>unregisterRunner\<close>. Everything it does is an effect on the outside world: it
  reads inputs, writes log lines and outputs, runs shell commands, sleeps, and calls the
  Linode client and the GitHub REST API through axios. The model keeps the sequence of
  these effects in a trace, and takes the answers of the outside world from a record of
  results (\<open>world\<close>). An exception is a value: every computation returns either the
  thrown error or its result, together with the state it reached.
\<close>

subsection \<open>Values, messages and errors\<close>

text \<open>
  A template literal is kept as the list of its parts: the literal text and the values
  interpolated into it. \<open>Quot a b\<close> is the number \<open>a / b\<close>, \<open>Arr\<close> an array of
  strings.
\<close>

datatype piece = S string | N nat | Quot nat nat | Arr "string list"

type_synonym msg = "piece list"

text \<open>
  The errors that reach a \<open>catch\<close>: an \<open>Error\<close> thrown by the action or by a client
  library, the \<open>ReferenceError\<close> of an identifier that is not in scope, and the rejection
  of an HTTP request, which carries \<open>response.status\<close> and \<open>response.statusText\<close>
  when the server answered.
\<close>

datatype js_error =
    Error msg
  | ReferenceError msg
  | RequestError msg "(nat \<times> string) option"

fun message :: "js_error \<Rightarrow> msg" where
  "message (Error m) = m"
| "message (ReferenceError m) = m"
| "message (RequestError m r) = m"

fun response :: "js_error \<Rightarrow> (nat \<times> string) option" where
  "response (RequestError m r) = r"
| "response e = None"

subsection \<open>The outside world\<close>

record linode =
  linode_id :: nat
  ipv4 :: string
  label :: string
  tags :: "string list"

record runner =
  runner_id :: nat
  labels :: "string list"

record create_request =
  region :: string
  type :: string
  image :: string
  root_pass :: string
  req_label :: string
  req_tags :: "string list"

datatype event =
    Info msg
  | LogError msg
  | SetFailed msg
  | SetOutput string piece
  | ExecSync msg
  | Sleep nat
  | CreateLinode create_request
  | GetLinodes
  | DeleteLinode piece
  | AxiosGet msg string
  | AxiosPost msg string
  | AxiosDelete msg string

text \<open>
  What the outside world answers. \<open>getInput\<close> is \<open>core.getInput\<close> (the empty
  string for an input that is not given). \<open>execSync_result n\<close> is the outcome of
  the \<open>n\<close>-th call of \<open>execSync\<close> of the run, counted from 0: \<open>None\<close> when the
  command succeeds, the error it throws otherwise. The other fields are the outcomes of
  the promises of the Linode client and of axios: \<open>Inl\<close> the rejection, \<open>Inr\<close>
  the value the code reads from the resolved promise.
\<close>

record world =
  getInput :: "string \<Rightarrow> string"
  execSync_result :: "nat \<Rightarrow> js_error option"
  createLinode_result :: "js_error + linode"
  getLinodes_result :: "js_error + linode list"
  deleteLinode_result :: "piece \<Rightarrow> js_error option"
  axios_get_result :: "js_error + runner list"
  axios_post_result :: "js_error + string"
  axios_delete_result :: "nat \<Rightarrow> js_error + nat \<times> string"

text \<open>
  The state of one run: the effects so far, in order; the number of \<open>execSync\<close> calls
  made; and the variable \<open>linodeId\<close> of \<open>run\<close> (line 70), which the \<open>try\<close> block
  assigns and the \<open>catch\<close> block reads.
\<close>

record st =
  trace :: "event list"
  execs :: nat
  linodeId :: "nat option"

definition init :: st where
  "init = \<lparr>trace = [], execs = 0, linodeId = None\<rparr>"

type_synonym 'a io = "st \<Rightarrow> (js_error + 'a) \<times> st"

definition ret :: "'a \<Rightarrow> 'a io" where
  "ret x s = (Inr x, s)"

definition throw :: "js_error \<Rightarrow> 'a io" where
  "throw e s = (Inl e, s)"

definition bind :: "'a io \<Rightarrow> ('a \<Rightarrow> 'b io) \<Rightarrow> 'b io" where
  "bind m f s = (case m s of (Inl e, s') \<Rightarrow> (Inl e, s') | (Inr x, s') \<Rightarrow> f x s')"

definition seq :: "unit io \<Rightarrow> 'b io \<Rightarrow> 'b io" where
  "seq m n = bind m (\<lambda>_. n)"

definition try_catch :: "'a io \<Rightarrow> (js_error \<Rightarrow> 'a io) \<Rightarrow> 'a io" where
  "try_catch m h s = (case m s of (Inl e, s') \<Rightarrow> h e s' | (Inr x, s') \<Rightarrow> (Inr x, s'))"

definition emit :: "event \<Rightarrow> unit io" where
  "emit e s = (Inr (), s\<lparr>trace := trace s @ [e]\<rparr>)"

definition settle :: "js_error + 'a \<Rightarrow> 'a io" where
  "settle r s = (r, s)"

definition settle_unit :: "js_error option \<Rightarrow> unit io" where
  "settle_unit r = (case r of None \<Rightarrow> ret () | Some e \<Rightarrow> throw e)"

subsection \<open>The effects the action uses\<close>

definition core_info :: "msg \<Rightarrow> unit io" where
  "core_info m = emit (Info m)"

definition core_error :: "msg \<Rightarrow> unit io" where
  "core_error m = emit (LogError m)"

definition core_setFailed :: "msg \<Rightarrow> unit io" where
  "core_setFailed m = emit (SetFailed m)"

definition core_setOutput :: "string \<Rightarrow> piece \<Rightarrow> unit io" where
  "core_setOutput name v = emit (SetOutput name v)"

definition sleep :: "nat \<Rightarrow> unit io" where
  "sleep delay = emit (Sleep delay)"

definition execSync :: "world \<Rightarrow> msg \<Rightarrow> unit io" where
  "execSync w cmd s =
     settle_unit (execSync_result w (execs s))
       (s\<lparr>trace := trace s @ [ExecSync cmd], execs := Suc (execs s)\<rparr>)"

definition createLinode :: "world \<Rightarrow> create_request \<Rightarrow> linode io" where
  "createLinode w r = seq (emit (CreateLinode r)) (settle (createLinode_result w))"

definition getLinodes :: "world \<Rightarrow> linode list io" where
  "getLinodes w = seq (emit GetLinodes) (settle (getLinodes_result w))"

definition deleteLinode :: "world \<Rightarrow> piece \<Rightarrow> unit io" where
  "deleteLinode w i = seq (emit (DeleteLinode i)) (settle_unit (deleteLinode_result w i))"

definition axios_get :: "world \<Rightarrow> msg \<Rightarrow> string \<Rightarrow> runner list io" where
  "axios_get w url token = seq (emit (AxiosGet url token)) (settle (axios_get_result w))"

definition axios_post :: "world \<Rightarrow> msg \<Rightarrow> string \<Rightarrow> string io" where
  "axios_post w url token = seq (emit (AxiosPost url token)) (settle (axios_post_result w))"

definition axios_delete :: "world \<Rightarrow> msg \<Rightarrow> nat \<Rightarrow> string \<Rightarrow> (nat \<times> string) io" where
  "axios_delete w url rid token =
     seq (emit (AxiosDelete url token)) (settle (axios_delete_result w rid))"

definition sq :: string where
  "sq = [CHR 0x27]"

definition ssh_command :: "string \<Rightarrow> string \<Rightarrow> msg \<Rightarrow> msg" where
  "ssh_command rootPassword ip script =
     [S ''sshpass -p '', S sq, S rootPassword, S sq,
      S '' ssh -o StrictHostKeyChecking=no root@'', S ip, S '' '', S sq] @ script @ [S sq]"

subsection \<open>waitForSSH (lines 12 to 24)\<close>

text \<open>
  The \<open>for\<close> loop from the value \<open>i\<close> of its counter on. One round logs the attempt and
  runs the probe; when the probe succeeds the function returns \<open>true\<close>; when it throws,
  the \<open>catch\<close> logs, sleeps \<open>delay\<close> milliseconds and the loop goes on with \<open>i + 1\<close>.
  When the counter reaches \<open>retries\<close> the function throws.
\<close>

function waitForSSH_loop :: "world \<Rightarrow> string \<Rightarrow> string \<Rightarrow> nat \<Rightarrow> nat \<Rightarrow> nat \<Rightarrow> bool io" where
  "waitForSSH_loop w ip rootPassword retries delay i s =
     (if i < retries then
        (case seq (core_info [S ''Attempting SSH connection to '', S ip, S '', attempt '',
                              N (i + 1), S '' of '', N retries])
                  (execSync w (ssh_command rootPassword ip [S ''echo SSH is ready''])) s of
           (Inr _, s1) \<Rightarrow> (Inr True, s1)
         | (Inl error, s1) \<Rightarrow>
             waitForSSH_loop w ip rootPassword retries delay (Suc i)
               (snd (seq (core_info [S ''SSH not ready yet. Retrying in '', Quot delay 1000,
                                     S '' seconds...''])
                         (sleep delay) s1)))
      else
        throw (Error [S ''Unable to connect to '', S ip, S '' after '', N retries,
                      S '' attempts.'']) s)"
  by pat_completeness auto
termination
  by (relation "measure (\<lambda>(w, ip, rootPassword, retries, delay, i, s). retries - i)") auto

declare waitForSSH_loop.simps [simp del]

text \<open>
  The parameters \<open>retries\<close> and \<open>delay\<close> have the defaults 10 and 30000; \<open>None\<close>
  is an argument that is not passed.
\<close>

definition waitForSSH :: "world \<Rightarrow> string \<Rightarrow> string \<Rightarrow> nat option \<Rightarrow> nat option \<Rightarrow> bool io" where
  "waitForSSH w ip rootPassword retries delay =
     waitForSSH_loop w ip rootPassword
       (case retries of None \<Rightarrow> 10 | Some r \<Rightarrow> r)
       (case delay of None \<Rightarrow> 30000 | Some d \<Rightarrow> d) 0"

subsection \<open>unregisterRunner (lines 26 to 67)\<close>

definition runners_url :: "string \<Rightarrow> string \<Rightarrow> msg" where
  "runners_url repoOwner repoName =
     [S ''https://api.github.com/repos/'', S repoOwner, S ''/'', S repoName,
      S ''/actions/runners'']"

text \<open>
  The request for the list of runners, the search for the first runner that has the
  label, and the request that deletes it. A resolved delete is logged, with
  \<open>core.error\<close> when its status is not 204. Any error thrown on the way is logged
  by the \<open>catch\<close> of line 59 and thrown again (line 65).
\<close>

definition unregisterRunner :: "world \<Rightarrow> string \<Rightarrow> string \<Rightarrow> string \<Rightarrow> string \<Rightarrow> unit io" where
  "unregisterRunner w repoOwner repoName githubToken runnerLabel =
     try_catch
       (seq (core_info [S ''Fetching runners for repo '', S repoOwner, S ''/'', S repoName])
       (bind (axios_get w (runners_url repoOwner repoName) githubToken) (\<lambda>runners.
          (case find (\<lambda>r. list_ex (\<lambda>l. l = runnerLabel) (labels r)) runners of
             Some runner \<Rightarrow>
               seq (core_info [S ''Found runner with label '', S runnerLabel,
                               S '', unregistering...''])
              (bind (axios_delete w
                       (runners_url repoOwner repoName @ [S ''/'', N (runner_id runner)])
                       (runner_id runner) githubToken)
                 (\<lambda>(status, statusText).
                    if status = 204 then
                      core_info [S ''Runner with label '', S runnerLabel,
                                 S '' unregistered successfully.'']
                    else
                      core_error [S ''Failed to unregister runner: '', N status, S '' - '',
                                  S statusText]))
           | None \<Rightarrow> core_info [S ''Runner with label '', S runnerLabel, S '' not found.'']))))
       (\<lambda>error.
          seq (case response error of
                 Some (status, statusText) \<Rightarrow>
                   if status = 422 then
                     core_error [S ''Failed to unregister runner: '', N status, S '' - '',
                                 S statusText]
                   else core_error (S ''Failed to unregister runner: '' # message error)
               | None \<Rightarrow> core_error (S ''Failed to unregister runner: '' # message error))
              (throw error))"

subsection \<open>The strings and arrays of line 80 and of lines 162 to 166\<close>

text \<open>
  \<open>s.split(sep)\<close> for a separator of one character: the pieces of \<open>s\<close> between
  the separators, empty pieces included; the empty string gives one empty piece.
\<close>

fun split_str :: "char \<Rightarrow> string \<Rightarrow> string list" where
  "split_str sep [] = [[]]"
| "split_str sep (c # cs) =
     (if c = sep then [] # split_str sep cs
      else (case split_str sep cs of
              t # ts \<Rightarrow> (c # t) # ts
            | [] \<Rightarrow> [[c]]))"

text \<open>
  \<open>s.trim()\<close> removes white space and line terminators at both ends. A
  \<^typ>\<open>char\<close> is a code unit below 256; of these, the tab, the line feed, the
  vertical tab, the form feed, the carriage return, the space and the no-break space
  are removed.
\<close>

definition js_whitespace :: "char \<Rightarrow> bool" where
  "js_whitespace c =
     (c \<in> set [CHR 0x09, CHR 0x0A, CHR 0x0B, CHR 0x0C, CHR 0x0D, CHR 0x20, CHR 0xA0])"

definition trim :: "string \<Rightarrow> string" where
  "trim s = rev (dropWhile js_whitespace (rev (dropWhile js_whitespace s)))"

text \<open>Line 80, as a function of the value of the input \<open>tags\<close>.\<close>

definition parse_tags :: "string \<Rightarrow> string list" where
  "parse_tags input = (if input \<noteq> [] then map trim (split_str CHR '','' input) else [])"

text \<open>
  \<open>s.includes(p)\<close> on strings: \<open>p\<close> occurs in \<open>s\<close> at some position.
  \<open>xs.includes(x)\<close> on arrays: \<open>x\<close> is an element of \<open>xs\<close>.
\<close>

fun str_includes :: "string \<Rightarrow> string \<Rightarrow> bool" where
  "str_includes [] p = (p = [])"
| "str_includes (c # cs) p = (take (length p) (c # cs) = p \<or> str_includes cs p)"

definition array_includes :: "string list \<Rightarrow> string \<Rightarrow> bool" where
  "array_includes xs x = list_ex (\<lambda>y. y = x) xs"

text \<open>The predicate of the \<open>filter\<close> of lines 162 to 166.\<close>

definition matches :: "string \<Rightarrow> linode \<Rightarrow> bool" where
  "matches searchPhrase instance =
     (str_includes (label instance) searchPhrase \<or>
      label instance = searchPhrase \<or>
      array_includes (tags instance) searchPhrase)"

subsection \<open>run (lines 69 to 198)\<close>

text \<open>The shell script of lines 131 to 140, sent to the new machine.\<close>

definition runnerScript :: "string \<Rightarrow> string \<Rightarrow> string \<Rightarrow> string \<Rightarrow> msg" where
  "runnerScript repoOwner repoName registrationToken baseLabel =
     [S ''\<newline>        export RUNNER_ALLOW_RUNASROOT='', S [CHR 0x22], S ''1'', S [CHR 0x22],
      S ''\<newline>        apt-get update'',
      S ''\<newline>        apt-get install -y libssl-dev'',
      S ''\<newline>        mkdir actions-runner && cd actions-runner'',
      S ''\<newline>        curl -o actions-runner-linux-x64-2.317.0.tar.gz -L https://github.com/actions/runner/releases/download/v2.317.0/actions-runner-linux-x64-2.317.0.tar.gz'',
      S ''\<newline>        tar xzf ./actions-runner-linux-x64-2.317.0.tar.gz'',
      S ''\<newline>        ./config.sh --url https://github.com/'', S repoOwner, S ''/'', S repoName,
      S '' --token '', S registrationToken, S '' --labels '', S baseLabel,
      S '' --name '', S baseLabel,
      S ''\<newline>        nohup ./run.sh > runner.log 2>&1 &'',
      S ''\<newline>      '']"

definition set_linodeId :: "nat \<Rightarrow> unit io" where
  "set_linodeId n s = (Inr (), s\<lparr>linodeId := Some n\<rparr>)"

text \<open>\<open>a || b\<close> on strings: \<open>a\<close> unless it is empty.\<close>

definition js_or :: "string \<Rightarrow> string \<Rightarrow> string" where
  "js_or a b = (if a \<noteq> [] then a else b)"

text \<open>
  The \<open>try\<close> block, lines 72 to 184. The constants of lines 72 to 82 are bound by
  \<open>let\<close>; a condition on a string tests that it is not empty.
\<close>

definition run_try :: "world \<Rightarrow> unit io" where
  "run_try w =
    (let githubToken = getInput w ''github_token'';
         action = getInput w ''action'';
         machineId = getInput w ''machine_id'';
         searchPhrase = getInput w ''search_phrase'';
         baseLabel = js_or (getInput w ''runner_label'') ''self-hosted'';
         rootPassword = getInput w ''root_password'';
         machineType = getInput w ''machine_type'';
         image = getInput w ''image'';
         tags = parse_tags (getInput w ''tags'');
         repoOwner = getInput w ''organization'';
         repoName = getInput w ''repo_name''
     in
     seq (core_info [S ''Action: '', S action])
    (seq (core_info [S ''Organization: '', S repoOwner])
    (seq (core_info [S ''Repository: '', S repoName])
    (seq (core_info [S ''Machine Type: '', S machineType])
    (seq (core_info [S ''Image: '', S image])
    (seq (core_info [S ''Tags: '', Arr tags])
    (seq (core_info [S ''Runner Label: '', S baseLabel])
    (if repoOwner = [] \<or> repoName = [] then
       throw (Error [S ''Both organization and repo_name inputs are required.''])
     else if action = ''create'' then
       seq (core_info [S ''Creating new Linode instance...''])
      (bind (createLinode w \<lparr>region = ''us-east'', type = machineType, image = image,
                               root_pass = rootPassword, req_label = baseLabel,
                               req_tags = tags\<rparr>) (\<lambda>linode.
       seq (set_linodeId (linode_id linode))
      (seq (core_setOutput ''machine_id'' (N (linode_id linode)))
      (seq (core_setOutput ''machine_ip'' (S (ipv4 linode)))
      (seq (core_info [S ''Linode instance created with ID '', N (linode_id linode),
                       S '' and IP '', S (ipv4 linode)])
      (bind (waitForSSH w (ipv4 linode) rootPassword None None) (\<lambda>_.
       seq (core_info [S ''Requesting GitHub registration token...''])
      (bind (axios_post w (runners_url repoOwner repoName @ [S ''/registration-token''])
                githubToken) (\<lambda>registrationToken.
       seq (core_info [S ''GitHub registration token received.''])
      (seq (core_info [S ''Setting up GitHub runner...''])
      (seq (try_catch
              (seq (execSync w (ssh_command rootPassword (ipv4 linode)
                      (runnerScript repoOwner repoName registrationToken baseLabel)))
                   (core_info [S ''GitHub runner setup completed successfully.'']))
              (\<lambda>error. seq (core_error (S ''Runner setup failed: '' # message error))
                            (throw error)))
           (core_setOutput ''runner_label'' (S baseLabel)))))))))))))
     else if action = ''destroy'' then
       (if machineId \<noteq> [] then
          seq (core_info [S ''Destroying Linode instance with ID '', S machineId, S ''...''])
         (seq (unregisterRunner w repoOwner repoName githubToken baseLabel)
         (seq (deleteLinode w (S machineId))
              (core_info [S ''Linode machine '', S machineId, S '' destroyed successfully.''])))
        else if searchPhrase \<noteq> [] then
          seq (core_info [S ''Searching for Linode instances matching phrase '',
                          S [CHR 0x22], S searchPhrase, S [CHR 0x22], S ''...''])
         (bind (getLinodes w) (\<lambda>instances.
            (case filter (matches searchPhrase) instances of
               [found] \<Rightarrow>
                 seq (core_info [S ''Found single matching instance with ID '',
                                 N (linode_id found), S '', destroying...''])
                (seq (unregisterRunner w repoOwner repoName githubToken baseLabel)
                (seq (deleteLinode w (N (linode_id found)))
                     (core_info [S ''Linode machine '', N (linode_id found),
                                 S '' destroyed successfully.''])))
             | [] \<Rightarrow>
                 throw (Error [S ''No Linode instances found matching the search phrase: '',
                               S searchPhrase])
             | _ \<Rightarrow>
                 throw (Error [S ''Multiple Linode instances found matching the search phrase: '',
                               S searchPhrase]))))
        else
          throw (Error [S ''Either machine_id or search_phrase must be provided for destruction'']))
     else
       throw (Error [S ''Invalid action. Use '', S [CHR 0x22], S ''create'', S [CHR 0x22],
                     S '' or '', S [CHR 0x22], S ''destroy'', S [CHR 0x22], S ''.''])))))))))"

text \<open>
  The \<open>catch\<close> block, lines 185 to 197. The constants \<open>repoOwner\<close>,
  \<open>repoName\<close>, \<open>githubToken\<close> and \<open>baseLabel\<close> are declared with \<open>const\<close>
  inside the \<open>try\<close> block, so they are bound in that block only. Where line 190 names
  them, the bindings in scope are those of the module (lines 1 to 9, and the three
  functions), the variable \<open>linodeId\<close> of \<open>run\<close> and the parameter \<open>error\<close> of
  the \<open>catch\<close>. Of these only \<open>linodeToken\<close> is a string; \<open>catch_scope\<close> lists
  the string constants that line 190 can read. An identifier with no binding throws a
  \<open>ReferenceError\<close> when it is evaluated, and the arguments of a call are evaluated
  from left to right before the call.
\<close>

definition catch_scope :: "world \<Rightarrow> (string \<times> string) list" where
  "catch_scope w = [(''linodeToken'', getInput w ''linode_token'')]"

definition ident :: "(string \<times> string) list \<Rightarrow> string \<Rightarrow> string io" where
  "ident scope name =
     (case map_of scope name of
        Some v \<Rightarrow> ret v
      | None \<Rightarrow> throw (ReferenceError [S name, S '' is not defined'']))"

definition run :: "world \<Rightarrow> unit io" where
  "run w =
     try_catch (run_try w)
       (\<lambda>error.
          seq (core_setFailed (message error))
              (\<lambda>s. case linodeId s of
                      None \<Rightarrow> ret () s
                    | Some n \<Rightarrow>
                        if n = 0 then ret () s
                        else
                          try_catch
                            (seq (core_info [S ''Cleaning up Linode instance with ID '', N n,
                                             S '' due to error...''])
                            (bind (ident (catch_scope w) ''repoOwner'') (\<lambda>repoOwner.
                             bind (ident (catch_scope w) ''repoName'') (\<lambda>repoName.
                             bind (ident (catch_scope w) ''githubToken'') (\<lambda>githubToken.
                             bind (ident (catch_scope w) ''baseLabel'') (\<lambda>baseLabel.
                             seq (unregisterRunner w repoOwner repoName githubToken baseLabel)
                            (seq (deleteLinode w (N n))
                                 (core_info [S ''Linode machine '', N n,
                                             S '' destroyed during cleanup.'']))))))))
                            (\<lambda>cleanupError.
                               core_error ([S ''Failed to destroy Linode machine '', N n,
                                            S '' during cleanup: ''] @ message cleanupError))
                            s))"

text \<open>The effects of one invocation, and what it reports.\<close>

definition effects :: "world \<Rightarrow> event list" where
  "effects w = trace (snd (run w init))"

subsection \<open>Reading a trace\<close>

text \<open>
  The delays slept, the number of commands run, the instances whose deletion was
  requested, the failures reported and the outputs set, each in the order of the trace.
\<close>

fun sleeps :: "event list \<Rightarrow> nat list" where
  "sleeps [] = []"
| "sleeps (Sleep d # es) = d # sleeps es"
| "sleeps (e # es) = sleeps es"

fun attempts :: "event list \<Rightarrow> nat" where
  "attempts [] = 0"
| "attempts (ExecSync c # es) = Suc (attempts es)"
| "attempts (e # es) = attempts es"

fun delete_targets :: "event list \<Rightarrow> piece list" where
  "delete_targets [] = []"
| "delete_targets (DeleteLinode i # es) = i # delete_targets es"
| "delete_targets (e # es) = delete_targets es"

fun failures :: "event list \<Rightarrow> msg list" where
  "failures [] = []"
| "failures (SetFailed m # es) = m # failures es"
| "failures (e # es) = failures es"

fun outputs :: "event list \<Rightarrow> (string \<times> piece) list" where
  "outputs [] = []"
| "outputs (SetOutput n v # es) = (n, v) # outputs es"
| "outputs (e # es) = outputs es"

text \<open>
  The calls that leave the process: to the Linode API, to the GitHub API, and the
  commands run over ssh.
\<close>

fun external_call :: "event \<Rightarrow> bool" where
  "external_call (CreateLinode r) = True"
| "external_call GetLinodes = True"
| "external_call (DeleteLinode i) = True"
| "external_call (AxiosGet u t) = True"
| "external_call (AxiosPost u t) = True"
| "external_call (AxiosDelete u t) = True"
| "external_call (ExecSync c) = True"
| "external_call e = False"

definition calls :: "event list \<Rightarrow> event list" where
  "calls evs = filter external_call evs"

text \<open>
  The events of \<open>waitForSSH\<close> and of \<open>unregisterRunner\<close>: none of them deletes or
  creates an instance, lists the instances, reports a failure or sets an output.
\<close>

fun quiet :: "event \<Rightarrow> bool" where
  "quiet (Info m) = True"
| "quiet (LogError m) = True"
| "quiet (ExecSync c) = True"
| "quiet (Sleep d) = True"
| "quiet (AxiosGet u t) = True"
| "quiet (AxiosDelete u t) = True"
| "quiet e = False"

text \<open>
  What the two helpers do when they are run from the initial state. Both add to the
  trace and leave \<open>linodeId\<close> alone, so these describe them in every state
  (lemmas \<open>waitForSSH_frame\<close> and \<open>unregisterRunner_frame\<close>).
\<close>

definition ssh_result :: "world \<Rightarrow> string \<Rightarrow> string \<Rightarrow> js_error + bool" where
  "ssh_result w ip pw = fst (waitForSSH w ip pw None None init)"

definition ssh_events :: "world \<Rightarrow> string \<Rightarrow> string \<Rightarrow> event list" where
  "ssh_events w ip pw = trace (snd (waitForSSH w ip pw None None init))"

definition ssh_execs :: "world \<Rightarrow> string \<Rightarrow> string \<Rightarrow> nat" where
  "ssh_execs w ip pw = execs (snd (waitForSSH w ip pw None None init))"

definition unreg_result :: "world \<Rightarrow> string \<Rightarrow> string \<Rightarrow> string \<Rightarrow> string \<Rightarrow> js_error + unit" where
  "unreg_result w repoOwner repoName githubToken runnerLabel =
     fst (unregisterRunner w repoOwner repoName githubToken runnerLabel init)"

definition unreg_events :: "world \<Rightarrow> string \<Rightarrow> string \<Rightarrow> string \<Rightarrow> string \<Rightarrow> event list" where
  "unreg_events w repoOwner repoName githubToken runnerLabel =
     trace (snd (unregisterRunner w repoOwner repoName githubToken runnerLabel init))"

subsection \<open>The parts of a run\<close>

text \<open>
  The values \<open>run\<close> computes from the inputs, and the events of the parts of a run
  that the lemmas below put together.
\<close>

definition baseLabel_of :: "world \<Rightarrow> string" where
  "baseLabel_of w = js_or (getInput w ''runner_label'') ''self-hosted''"

definition create_request_of :: "world \<Rightarrow> create_request" where
  "create_request_of w =
     \<lparr>region = ''us-east'', type = getInput w ''machine_type'', image = getInput w ''image'',
      root_pass = getInput w ''root_password'', req_label = baseLabel_of w,
      req_tags = parse_tags (getInput w ''tags'')\<rparr>"

definition log_header :: "world \<Rightarrow> event list" where
  "log_header w =
     [Info [S ''Action: '', S (getInput w ''action'')],
      Info [S ''Organization: '', S (getInput w ''organization'')],
      Info [S ''Repository: '', S (getInput w ''repo_name'')],
      Info [S ''Machine Type: '', S (getInput w ''machine_type'')],
      Info [S ''Image: '', S (getInput w ''image'')],
      Info [S ''Tags: '', Arr (parse_tags (getInput w ''tags''))],
      Info [S ''Runner Label: '', S (baseLabel_of w)]]"

definition created_events :: "world \<Rightarrow> linode \<Rightarrow> event list" where
  "created_events w l =
     [Info [S ''Creating new Linode instance...''],
      CreateLinode (create_request_of w),
      SetOutput ''machine_id'' (N (linode_id l)),
      SetOutput ''machine_ip'' (S (ipv4 l)),
      Info [S ''Linode instance created with ID '', N (linode_id l), S '' and IP '',
            S (ipv4 l)]] @
     ssh_events w (ipv4 l) (getInput w ''root_password'')"

definition token_events :: "world \<Rightarrow> event list" where
  "token_events w =
     [Info [S ''Requesting GitHub registration token...''],
      AxiosPost (runners_url (getInput w ''organization'') (getInput w ''repo_name'') @
                 [S ''/registration-token'']) (getInput w ''github_token'')]"

definition setup_events :: "world \<Rightarrow> linode \<Rightarrow> string \<Rightarrow> event list" where
  "setup_events w l registrationToken =
     [Info [S ''GitHub registration token received.''],
      Info [S ''Setting up GitHub runner...''],
      ExecSync (ssh_command (getInput w ''root_password'') (ipv4 l)
                 (runnerScript (getInput w ''organization'') (getInput w ''repo_name'')
                    registrationToken (baseLabel_of w)))]"

text \<open>What the \<open>catch\<close> block adds after \<open>setFailed\<close> when \<open>linodeId\<close> is \<open>n\<close>.\<close>

definition cleanup_events :: "nat \<Rightarrow> event list" where
  "cleanup_events n =
     (if n = 0 then []
      else [Info [S ''Cleaning up Linode instance with ID '', N n, S '' due to error...''],
            LogError [S ''Failed to destroy Linode machine '', N n, S '' during cleanup: '',
                      S ''repoOwner'', S '' is not defined'']])"

definition unregistration :: "world \<Rightarrow> js_error + unit" where
  "unregistration w =
     unreg_result w (getInput w ''organization'') (getInput w ''repo_name'')
       (getInput w ''github_token'') (baseLabel_of w)"

definition unregistration_events :: "world \<Rightarrow> event list" where
  "unregistration_events w =
     unreg_events w (getInput w ''organization'') (getInput w ''repo_name'')
       (getInput w ''github_token'') (baseLabel_of w)"

text \<open>
  The events of the destroy branch from the call of \<open>unregisterRunner\<close> on, for the
  instance \<open>t\<close>.
\<close>

definition destroy_events :: "world \<Rightarrow> piece \<Rightarrow> event list" where
  "destroy_events w t =
     unregistration_events w @
     (case unregistration w of
        Inl e \<Rightarrow> [SetFailed (message e)]
      | Inr _ \<Rightarrow>
          DeleteLinode t #
          (case deleteLinode_result w t of
             None \<Rightarrow> [Info [S ''Linode machine '', t, S '' destroyed successfully.'']]
           | Some e \<Rightarrow> [SetFailed (message e)]))"

text \<open>
  The instance a destroy request resolves to (lines 154 to 169): the identifier given,
  or else the only instance that matches the phrase.
\<close>

definition destroy_target :: "world \<Rightarrow> piece option" where
  "destroy_target w =
     (if getInput w ''machine_id'' \<noteq> [] then Some (S (getInput w ''machine_id''))
      else if getInput w ''search_phrase'' \<noteq> [] then
        (case getLinodes_result w of
           Inl e \<Rightarrow> None
         | Inr instances \<Rightarrow>
             (case filter (matches (getInput w ''search_phrase'')) instances of
                [found] \<Rightarrow> Some (N (linode_id found))
              | _ \<Rightarrow> None))
      else None)"

subsection \<open>The search policy in the words of the specification\<close>

text \<open>
  An instance matches when its label contains the phrase as a substring, equals the
  phrase, or the phrase is one of its tags. \<^const>\<open>sublist\<close> is the contiguous
  sublist of the library.
\<close>

definition spec_matches :: "string \<Rightarrow> linode \<Rightarrow> bool" where
  "spec_matches phrase instance =
     (sublist phrase (label instance) \<or> label instance = phrase \<or>
      phrase \<in> set (tags instance))"

subsection \<open>The tags in the words of the specification\<close>

text \<open>
  The pieces of a delimited string, put together again: \<open>join_str sep pieces\<close> is
  the pieces with one \<open>sep\<close> between each two neighbours.
\<close>

fun join_str :: "char \<Rightarrow> string list \<Rightarrow> string" where
  "join_str sep [] = []"
| "join_str sep [p] = p"
| "join_str sep (p # q # ps) = p @ sep # join_str sep (q # ps)"

subsection \<open>Example worlds\<close>

definition inputs_of :: "(string \<times> string) list \<Rightarrow> string \<Rightarrow> string" where
  "inputs_of kvs name = (case map_of kvs name of Some v \<Rightarrow> v | None \<Rightarrow> [])"

text \<open>A world in which every call succeeds and no input is given.\<close>

definition w_base :: world where
  "w_base =
     \<lparr>getInput = inputs_of [],
      execSync_result = (\<lambda>n. None),
      createLinode_result =
        Inr \<lparr>linode_id = 123, ipv4 = ''192.0.2.7'', label = ''self-hosted'', tags = []\<rparr>,
      getLinodes_result = Inr [],
      deleteLinode_result = (\<lambda>i. None),
      axios_get_result = Inr [],
      axios_post_result = Inr ''TOKEN'',
      axios_delete_result = (\<lambda>i. Inr (204, ''No Content''))\<rparr>"

text \<open>The first two commands fail, the third succeeds.\<close>

definition w_ssh_third :: world where
  "w_ssh_third =
     w_base\<lparr>execSync_result :=
              (\<lambda>n. if n < 2 then Some (Error [S ''Connection refused'']) else None)\<rparr>"

text \<open>Every command fails.\<close>

definition w_ssh_never :: world where
  "w_ssh_never = w_base\<lparr>execSync_result := (\<lambda>n. Some (Error [S ''Connection refused'']))\<rparr>"

text \<open>A create request whose machine never answers on ssh.\<close>

definition create_inputs :: "string \<Rightarrow> string" where
  "create_inputs =
     inputs_of [(''action'', ''create''), (''organization'', ''acme''),
                (''repo_name'', ''widgets''), (''machine_type'', ''g6-standard-1''),
                (''image'', ''linode/ubuntu22.04''), (''root_password'', ''secret''),
                (''github_token'', ''ghp_token''), (''linode_token'', ''lin_token'')]"

definition w_create_ssh_never :: world where
  "w_create_ssh_never = w_ssh_never\<lparr>getInput := create_inputs\<rparr>"

text \<open>A create request without machine type and image, which the provider rejects.\<close>

definition w_create_no_type :: world where
  "w_create_no_type =
     w_base\<lparr>getInput := inputs_of [(''action'', ''create''), (''organization'', ''acme''),
                                     (''repo_name'', ''widgets'')],
            createLinode_result := Inl (Error [S ''type is required''])\<rparr>"

text \<open>No repository given; an action that does not exist; a destroy request without a target.\<close>

definition w_no_repository :: world where
  "w_no_repository = w_base\<lparr>getInput := inputs_of [(''action'', ''create'')]\<rparr>"

definition w_bad_action :: world where
  "w_bad_action =
     w_base\<lparr>getInput := inputs_of [(''action'', ''restart''), (''organization'', ''acme''),
                                     (''repo_name'', ''widgets'')]\<rparr>"

definition w_destroy_no_target :: world where
  "w_destroy_no_target =
     w_base\<lparr>getInput := inputs_of [(''action'', ''destroy''), (''organization'', ''acme''),
                                     (''repo_name'', ''widgets'')]\<rparr>"

text \<open>A destroy request by a phrase that two of the three instances match.\<close>

definition w_destroy_two_matches :: world where
  "w_destroy_two_matches =
     w_base\<lparr>getInput := inputs_of [(''action'', ''destroy''), (''organization'', ''acme''),
                                     (''repo_name'', ''widgets''), (''github_token'', ''ghp_token''),
                                     (''search_phrase'', ''ci-runner-7'')],
            getLinodes_result :=
              Inr [\<lparr>linode_id = 1, ipv4 = ''192.0.2.1'', label = ''ci-runner-7'', tags = []\<rparr>,
                   \<lparr>linode_id = 2, ipv4 = ''192.0.2.2'', label = ''ci-runner-70'', tags = []\<rparr>,
                   \<lparr>linode_id = 3, ipv4 = ''192.0.2.3'', label = ''database'', tags = [''prod'']\<rparr>]\<rparr>"

text \<open>
  Destroy requests by identifier, with a runner that has the label: the request that
  deletes the runner is rejected with status 500, or resolves with status 202.
\<close>

definition destroy_inputs :: "string \<Rightarrow> string" where
  "destroy_inputs =
     inputs_of [(''action'', ''destroy''), (''organization'', ''acme''),
                (''repo_name'', ''widgets''), (''github_token'', ''ghp_token''),
                (''machine_id'', ''123'')]"

definition w_destroy_unreg_500 :: world where
  "w_destroy_unreg_500 =
     w_base\<lparr>getInput := destroy_inputs,
            axios_get_result := Inr [\<lparr>runner_id = 7, labels = [''self-hosted'', ''linux'']\<rparr>],
            axios_delete_result :=
              (\<lambda>i. Inl (RequestError [S ''Request failed with status code 500'']
                                      (Some (500, ''Internal Server Error''))))\<rparr>"

definition w_destroy_unreg_202 :: world where
  "w_destroy_unreg_202 =
     w_base\<lparr>getInput := destroy_inputs,
            axios_get_result := Inr [\<lparr>runner_id = 7, labels = [''self-hosted'', ''linux'']\<rparr>],
            axios_delete_result := (\<lambda>i. Inr (202, ''Accepted''))\<rparr>"

text \<open>The same request when the delete resolves with 204, and when no runner has the label.\<close>

definition w_destroy_unreg_204 :: world where
  "w_destroy_unreg_204 =
     w_base\<lparr>getInput := destroy_inputs,
            axios_get_result := Inr [\<lparr>runner_id = 7, labels = [''self-hosted'', ''linux'']\<rparr>]\<rparr>"

definition w_destroy_no_runner :: world where
  "w_destroy_no_runner = w_base\<lparr>getInput := destroy_inputs\<rparr>"

text \<open>
  Destroy requests with both an identifier and a phrase. The phrase matches exactly one
  instance, which is not the one the identifier names. A runner has the label; the
  request that deletes it resolves with 204, or is rejected with status 500.
\<close>

definition both_inputs :: "string \<Rightarrow> string" where
  "both_inputs =
     inputs_of [(''action'', ''destroy''), (''organization'', ''acme''),
                (''repo_name'', ''widgets''), (''github_token'', ''ghp_token''),
                (''machine_id'', ''123''), (''search_phrase'', ''database'')]"

definition w_both :: world where
  "w_both =
     w_destroy_two_matches\<lparr>getInput := both_inputs,
       axios_get_result := Inr [\<lparr>runner_id = 7, labels = [''self-hosted'', ''linux'']\<rparr>]\<rparr>"

definition w_both_500 :: world where
  "w_both_500 =
     w_both\<lparr>axios_delete_result :=
              (\<lambda>i. Inl (RequestError [S ''Request failed with status code 500'']
                                      (Some (500, ''Internal Server Error''))))\<rparr>"

section \<open>Lemmas on the helpers\<close>

lemmas io_defs = seq_def bind_def try_catch_def emit_def ret_def throw_def settle_def
  settle_unit_def core_info_def core_error_def core_setFailed_def core_setOutput_def
  sleep_def execSync_def createLinode_def getLinodes_def deleteLinode_def axios_get_def
  axios_post_def axios_delete_def set_linodeId_def

lemma sleeps_append: "sleeps (xs @ ys) = sleeps xs @ sleeps ys"
  by (induction xs rule: sleeps.induct) simp_all

lemma attempts_append: "attempts (xs @ ys) = attempts xs + attempts ys"
  by (induction xs rule: attempts.induct) simp_all

lemma delete_targets_append: "delete_targets (xs @ ys) = delete_targets xs @ delete_targets ys"
  by (induction xs rule: delete_targets.induct) simp_all

lemma failures_append: "failures (xs @ ys) = failures xs @ failures ys"
  by (induction xs rule: failures.induct) simp_all

lemma outputs_append: "outputs (xs @ ys) = outputs xs @ outputs ys"
  by (induction xs rule: outputs.induct) simp_all

lemma quiet_delete_targets: "list_all quiet evs \<Longrightarrow> delete_targets evs = []"
  by (induction evs rule: delete_targets.induct) simp_all

lemma quiet_failures: "list_all quiet evs \<Longrightarrow> failures evs = []"
  by (induction evs rule: failures.induct) simp_all

lemma quiet_outputs: "list_all quiet evs \<Longrightarrow> outputs evs = []"
  by (induction evs rule: outputs.induct) simp_all

subsection \<open>One round of the loop of waitForSSH\<close>

lemma loop_success_step:
  "i < retries \<Longrightarrow> execSync_result w (execs s) = None \<Longrightarrow>
   waitForSSH_loop w ip pw retries delay i s =
     (Inr True,
      s\<lparr>execs := Suc (execs s),
        trace := trace s @
          [Info [S ''Attempting SSH connection to '', S ip, S '', attempt '', N (i + 1),
                 S '' of '', N retries],
           ExecSync (ssh_command pw ip [S ''echo SSH is ready''])]\<rparr>)"
  by (subst waitForSSH_loop.simps) (simp add: io_defs)

lemma loop_failure_step:
  "i < retries \<Longrightarrow> execSync_result w (execs s) = Some e \<Longrightarrow>
   waitForSSH_loop w ip pw retries delay i s =
     waitForSSH_loop w ip pw retries delay (Suc i)
       (s\<lparr>execs := Suc (execs s),
          trace := trace s @
            [Info [S ''Attempting SSH connection to '', S ip, S '', attempt '', N (i + 1),
                   S '' of '', N retries],
             ExecSync (ssh_command pw ip [S ''echo SSH is ready'']),
             Info [S ''SSH not ready yet. Retrying in '', Quot delay 1000, S '' seconds...''],
             Sleep delay]\<rparr>)"
  by (subst waitForSSH_loop.simps) (simp add: io_defs)

lemma loop_exhausted_step:
  "\<not> i < retries \<Longrightarrow>
   waitForSSH_loop w ip pw retries delay i s =
     (Inl (Error [S ''Unable to connect to '', S ip, S '' after '', N retries,
                  S '' attempts.'']), s)"
  by (subst waitForSSH_loop.simps) (simp add: io_defs)

subsection \<open>The loop of waitForSSH as a whole\<close>

text \<open>
  When the next \<open>M\<close> probes fail and the one after them succeeds, and the counter has
  room for them, the loop returns \<open>true\<close> after \<open>M + 1\<close> commands and \<open>M\<close>
  sleeps of \<open>delay\<close>.
\<close>

lemma loop_succeeds:
  "i + M < retries \<Longrightarrow> (\<forall>k<M. execSync_result w (execs s + k) \<noteq> None) \<Longrightarrow>
   execSync_result w (execs s + M) = None \<Longrightarrow>
   fst (waitForSSH_loop w ip pw retries delay i s) = Inr True \<and>
   execs (snd (waitForSSH_loop w ip pw retries delay i s)) = execs s + M + 1 \<and>
   attempts (trace (snd (waitForSSH_loop w ip pw retries delay i s))) =
     attempts (trace s) + M + 1 \<and>
   sleeps (trace (snd (waitForSSH_loop w ip pw retries delay i s))) =
     sleeps (trace s) @ replicate M delay"
proof (induction M arbitrary: i s)
  case 0
  then show ?case
    by (simp add: loop_success_step attempts_append sleeps_append)
next
  case (Suc M)
  from Suc.prems(2) obtain e where e: "execSync_result w (execs s) = Some e"
    by force
  let ?s = "s\<lparr>execs := Suc (execs s),
              trace := trace s @
                [Info [S ''Attempting SSH connection to '', S ip, S '', attempt '', N (i + 1),
                       S '' of '', N retries],
                 ExecSync (ssh_command pw ip [S ''echo SSH is ready'']),
                 Info [S ''SSH not ready yet. Retrying in '', Quot delay 1000,
                       S '' seconds...''],
                 Sleep delay]\<rparr>"
  have step: "waitForSSH_loop w ip pw retries delay i s =
              waitForSSH_loop w ip pw retries delay (Suc i) ?s"
    using Suc.prems(1) e by (simp add: loop_failure_step)
  have a: "Suc i + M < retries" using Suc.prems(1) by simp
  have b: "\<forall>k<M. execSync_result w (execs ?s + k) \<noteq> None"
    using Suc.prems(2) by auto
  have c: "execSync_result w (execs ?s + M) = None"
    using Suc.prems(3) by simp
  from Suc.IH [OF a b c] show ?case
    unfolding step by (simp add: attempts_append sleeps_append replicate_append_same)
qed

text \<open>
  When every probe that the counter still allows fails, the loop throws after running
  all of them, with a sleep after each.
\<close>

lemma loop_exhausts:
  "(\<forall>k<retries - i. execSync_result w (execs s + k) \<noteq> None) \<Longrightarrow>
   fst (waitForSSH_loop w ip pw retries delay i s) =
     Inl (Error [S ''Unable to connect to '', S ip, S '' after '', N retries,
                 S '' attempts.'']) \<and>
   execs (snd (waitForSSH_loop w ip pw retries delay i s)) = execs s + (retries - i) \<and>
   attempts (trace (snd (waitForSSH_loop w ip pw retries delay i s))) =
     attempts (trace s) + (retries - i) \<and>
   sleeps (trace (snd (waitForSSH_loop w ip pw retries delay i s))) =
     sleeps (trace s) @ replicate (retries - i) delay"
proof (induction "retries - i" arbitrary: i s)
  case 0
  then show ?case by (simp add: loop_exhausted_step)
next
  case (Suc n)
  then have lt: "i < retries" by simp
  from Suc.prems lt obtain e where e: "execSync_result w (execs s) = Some e"
    by (metis add.right_neutral not_None_eq zero_less_diff)
  let ?s = "s\<lparr>execs := Suc (execs s),
              trace := trace s @
                [Info [S ''Attempting SSH connection to '', S ip, S '', attempt '', N (i + 1),
                       S '' of '', N retries],
                 ExecSync (ssh_command pw ip [S ''echo SSH is ready'']),
                 Info [S ''SSH not ready yet. Retrying in '', Quot delay 1000,
                       S '' seconds...''],
                 Sleep delay]\<rparr>"
  have step: "waitForSSH_loop w ip pw retries delay i s =
              waitForSSH_loop w ip pw retries delay (Suc i) ?s"
    using lt e by (simp add: loop_failure_step)
  have a: "n = retries - Suc i" using Suc.hyps(2) by simp
  have b: "\<forall>k<retries - Suc i. execSync_result w (execs ?s + k) \<noteq> None"
  proof (intro allI impI)
    fix k assume "k < retries - Suc i"
    then have "Suc k < retries - i" by simp
    with Suc.prems have "execSync_result w (execs s + Suc k) \<noteq> None" by blast
    then show "execSync_result w (execs ?s + k) \<noteq> None" by simp
  qed
  have d: "retries - i = Suc (retries - Suc i)" using lt by simp
  from Suc.hyps(1) [OF a b] show ?case
    unfolding step by (simp add: attempts_append sleeps_append replicate_append_same d)
qed

text \<open>
  The loop reads of the state only the number of commands run so far: its result, the
  events it adds and the number of commands it runs are those of a run from the initial
  state with that number.
\<close>

lemma loop_frame:
  "waitForSSH_loop w ip pw retries delay i s =
     (fst (waitForSSH_loop w ip pw retries delay i (init\<lparr>execs := execs s\<rparr>)),
      s\<lparr>execs := execs (snd (waitForSSH_loop w ip pw retries delay i (init\<lparr>execs := execs s\<rparr>))),
        trace := trace s @
          trace (snd (waitForSSH_loop w ip pw retries delay i (init\<lparr>execs := execs s\<rparr>)))\<rparr>)"
proof (induction "retries - i" arbitrary: i s)
  case 0
  then show ?case by (simp add: loop_exhausted_step init_def)
next
  case (Suc n)
  then have lt: "i < retries" by simp
  have n: "n = retries - Suc i" using Suc.hyps(2) by simp
  show ?case
  proof (cases "execSync_result w (execs s)")
    case None
    then show ?thesis using lt by (simp add: loop_success_step init_def)
  next
    case (Some e)
    let ?new = "[Info [S ''Attempting SSH connection to '', S ip, S '', attempt '', N (i + 1),
                       S '' of '', N retries],
                 ExecSync (ssh_command pw ip [S ''echo SSH is ready'']),
                 Info [S ''SSH not ready yet. Retrying in '', Quot delay 1000,
                       S '' seconds...''],
                 Sleep delay]"
    let ?s1 = "s\<lparr>execs := Suc (execs s), trace := trace s @ ?new\<rparr>"
    let ?s2 = "init\<lparr>execs := Suc (execs s), trace := ?new\<rparr>"
    have e1: "waitForSSH_loop w ip pw retries delay i s =
              waitForSSH_loop w ip pw retries delay (Suc i) ?s1"
      using lt Some by (simp add: loop_failure_step)
    have e2: "waitForSSH_loop w ip pw retries delay i (init\<lparr>execs := execs s\<rparr>) =
              waitForSSH_loop w ip pw retries delay (Suc i) ?s2"
      using lt Some by (simp add: loop_failure_step init_def)
    have i1: "init\<lparr>execs := execs ?s1\<rparr> = init\<lparr>execs := Suc (execs s)\<rparr>" by simp
    have i2: "init\<lparr>execs := execs ?s2\<rparr> = init\<lparr>execs := Suc (execs s)\<rparr>" by simp
    show ?thesis
      unfolding e1 e2
      by (subst Suc.hyps(1) [OF n, of ?s1], subst (1 2 3) Suc.hyps(1) [OF n, of ?s2])
         (simp only: i1 i2, simp add: init_def)
  qed
qed

lemma loop_quiet:
  "list_all quiet (trace s) \<Longrightarrow>
   list_all quiet (trace (snd (waitForSSH_loop w ip pw retries delay i s)))"
proof (induction "retries - i" arbitrary: i s)
  case 0
  then show ?case by (simp add: loop_exhausted_step)
next
  case (Suc n)
  then have lt: "i < retries" by simp
  have n: "n = retries - Suc i" using Suc.hyps(2) by simp
  show ?case
  proof (cases "execSync_result w (execs s)")
    case None
    then show ?thesis using lt Suc.prems by (simp add: loop_success_step)
  next
    case (Some e)
    show ?thesis
      using lt Some Suc.prems
      by (simp add: loop_failure_step [where e = e] Suc.hyps(1) [OF n])
  qed
qed

subsection \<open>The helpers in any state\<close>

lemma waitForSSH_frame:
  "execs s = 0 \<Longrightarrow>
   waitForSSH w ip pw None None s =
     (ssh_result w ip pw,
      s\<lparr>execs := ssh_execs w ip pw, trace := trace s @ ssh_events w ip pw\<rparr>)"
  unfolding ssh_result_def ssh_events_def ssh_execs_def waitForSSH_def
  by (subst loop_frame) (simp add: init_def)

lemma ssh_events_quiet: "list_all quiet (ssh_events w ip pw)"
  unfolding ssh_events_def waitForSSH_def by (rule loop_quiet) (simp add: init_def)

lemma unregisterRunner_frame:
  "unregisterRunner w a b c d s =
     (unreg_result w a b c d, s\<lparr>trace := trace s @ unreg_events w a b c d\<rparr>)"
  unfolding unreg_result_def unreg_events_def unregisterRunner_def init_def
  by (auto simp: io_defs split: sum.splits option.splits prod.splits)

lemma unreg_events_quiet: "list_all quiet (unreg_events w a b c d)"
  unfolding unreg_events_def unregisterRunner_def init_def
  by (auto simp: io_defs split: sum.splits option.splits prod.splits)

lemmas run_defs = effects_def run_def run_try_def Let_def io_defs ident_def catch_scope_def

lemmas frame_simps = waitForSSH_frame unregisterRunner_frame
  delete_targets_append failures_append outputs_append
  quiet_delete_targets [OF ssh_events_quiet] quiet_failures [OF ssh_events_quiet]
  quiet_outputs [OF ssh_events_quiet]
  quiet_delete_targets [OF unreg_events_quiet] quiet_failures [OF unreg_events_quiet]
  quiet_outputs [OF unreg_events_quiet]

section \<open>The effects of a run, path by path\<close>

text \<open>
  Each lemma runs \<open>run\<close> along one path through its branches and gives the whole
  trace. The events of \<open>waitForSSH\<close> and of \<open>unregisterRunner\<close> stay folded.
\<close>

lemmas path_defs = run_defs frame_simps init_def log_header_def baseLabel_of_def
  create_request_of_def created_events_def token_events_def setup_events_def cleanup_events_def
  unregistration_def unregistration_events_def destroy_events_def

lemma effects_no_repository:
  "getInput w ''organization'' = [] \<or> getInput w ''repo_name'' = [] \<Longrightarrow>
   effects w =
     log_header w @ [SetFailed [S ''Both organization and repo_name inputs are required.'']]"
  by (simp add: path_defs)

lemma effects_invalid_action:
  "getInput w ''organization'' \<noteq> [] \<Longrightarrow> getInput w ''repo_name'' \<noteq> [] \<Longrightarrow>
   getInput w ''action'' \<noteq> ''create'' \<Longrightarrow> getInput w ''action'' \<noteq> ''destroy'' \<Longrightarrow>
   effects w =
     log_header w @
     [SetFailed [S ''Invalid action. Use '', S [CHR 0x22], S ''create'', S [CHR 0x22],
                 S '' or '', S [CHR 0x22], S ''destroy'', S [CHR 0x22], S ''.'']]"
  by (simp add: path_defs)

lemma effects_destroy_no_target:
  "getInput w ''organization'' \<noteq> [] \<Longrightarrow> getInput w ''repo_name'' \<noteq> [] \<Longrightarrow>
   getInput w ''action'' = ''destroy'' \<Longrightarrow>
   getInput w ''machine_id'' = [] \<Longrightarrow> getInput w ''search_phrase'' = [] \<Longrightarrow>
   effects w =
     log_header w @
     [SetFailed [S ''Either machine_id or search_phrase must be provided for destruction'']]"
  by (simp add: path_defs)

lemma effects_destroy_by_id:
  "getInput w ''organization'' \<noteq> [] \<Longrightarrow> getInput w ''repo_name'' \<noteq> [] \<Longrightarrow>
   getInput w ''action'' = ''destroy'' \<Longrightarrow> getInput w ''machine_id'' \<noteq> [] \<Longrightarrow>
   effects w =
     log_header w @
     [Info [S ''Destroying Linode instance with ID '', S (getInput w ''machine_id''), S ''...'']] @
     destroy_events w (S (getInput w ''machine_id''))"
  by (simp add: path_defs split: sum.splits option.splits)

lemma effects_destroy_search_fails:
  "getInput w ''organization'' \<noteq> [] \<Longrightarrow> getInput w ''repo_name'' \<noteq> [] \<Longrightarrow>
   getInput w ''action'' = ''destroy'' \<Longrightarrow>
   getInput w ''machine_id'' = [] \<Longrightarrow> getInput w ''search_phrase'' \<noteq> [] \<Longrightarrow>
   getLinodes_result w = Inl e \<Longrightarrow>
   effects w =
     log_header w @
     [Info [S ''Searching for Linode instances matching phrase '', S [CHR 0x22],
            S (getInput w ''search_phrase''), S [CHR 0x22], S ''...''],
      GetLinodes, SetFailed (message e)]"
  by (simp add: path_defs)

lemma effects_destroy_one_match:
  "getInput w ''organization'' \<noteq> [] \<Longrightarrow> getInput w ''repo_name'' \<noteq> [] \<Longrightarrow>
   getInput w ''action'' = ''destroy'' \<Longrightarrow>
   getInput w ''machine_id'' = [] \<Longrightarrow> getInput w ''search_phrase'' \<noteq> [] \<Longrightarrow>
   getLinodes_result w = Inr instances \<Longrightarrow>
   filter (matches (getInput w ''search_phrase'')) instances = [found] \<Longrightarrow>
   effects w =
     log_header w @
     [Info [S ''Searching for Linode instances matching phrase '', S [CHR 0x22],
            S (getInput w ''search_phrase''), S [CHR 0x22], S ''...''],
      GetLinodes,
      Info [S ''Found single matching instance with ID '', N (linode_id found),
            S '', destroying...'']] @
     destroy_events w (N (linode_id found))"
  by (simp add: path_defs split: sum.splits option.splits)

lemma effects_destroy_no_match:
  "getInput w ''organization'' \<noteq> [] \<Longrightarrow> getInput w ''repo_name'' \<noteq> [] \<Longrightarrow>
   getInput w ''action'' = ''destroy'' \<Longrightarrow>
   getInput w ''machine_id'' = [] \<Longrightarrow> getInput w ''search_phrase'' \<noteq> [] \<Longrightarrow>
   getLinodes_result w = Inr instances \<Longrightarrow>
   filter (matches (getInput w ''search_phrase'')) instances = [] \<Longrightarrow>
   effects w =
     log_header w @
     [Info [S ''Searching for Linode instances matching phrase '', S [CHR 0x22],
            S (getInput w ''search_phrase''), S [CHR 0x22], S ''...''],
      GetLinodes,
      SetFailed [S ''No Linode instances found matching the search phrase: '',
                 S (getInput w ''search_phrase'')]]"
  by (simp add: path_defs)

lemma effects_destroy_many_matches:
  "getInput w ''organization'' \<noteq> [] \<Longrightarrow> getInput w ''repo_name'' \<noteq> [] \<Longrightarrow>
   getInput w ''action'' = ''destroy'' \<Longrightarrow>
   getInput w ''machine_id'' = [] \<Longrightarrow> getInput w ''search_phrase'' \<noteq> [] \<Longrightarrow>
   getLinodes_result w = Inr instances \<Longrightarrow>
   filter (matches (getInput w ''search_phrase'')) instances = a # b # rest \<Longrightarrow>
   effects w =
     log_header w @
     [Info [S ''Searching for Linode instances matching phrase '', S [CHR 0x22],
            S (getInput w ''search_phrase''), S [CHR 0x22], S ''...''],
      GetLinodes,
      SetFailed [S ''Multiple Linode instances found matching the search phrase: '',
                 S (getInput w ''search_phrase'')]]"
  by (simp add: path_defs)

lemma effects_create_rejected:
  "getInput w ''organization'' \<noteq> [] \<Longrightarrow> getInput w ''repo_name'' \<noteq> [] \<Longrightarrow>
   getInput w ''action'' = ''create'' \<Longrightarrow> createLinode_result w = Inl e \<Longrightarrow>
   effects w =
     log_header w @
     [Info [S ''Creating new Linode instance...''], CreateLinode (create_request_of w),
      SetFailed (message e)]"
  by (simp add: path_defs)

lemma effects_create_unreachable:
  "getInput w ''organization'' \<noteq> [] \<Longrightarrow> getInput w ''repo_name'' \<noteq> [] \<Longrightarrow>
   getInput w ''action'' = ''create'' \<Longrightarrow> createLinode_result w = Inr l \<Longrightarrow>
   ssh_result w (ipv4 l) (getInput w ''root_password'') = Inl e \<Longrightarrow>
   effects w =
     log_header w @ created_events w l @ SetFailed (message e) # cleanup_events (linode_id l)"
  by (simp add: path_defs)

lemma effects_create_no_token:
  "getInput w ''organization'' \<noteq> [] \<Longrightarrow> getInput w ''repo_name'' \<noteq> [] \<Longrightarrow>
   getInput w ''action'' = ''create'' \<Longrightarrow> createLinode_result w = Inr l \<Longrightarrow>
   ssh_result w (ipv4 l) (getInput w ''root_password'') = Inr b \<Longrightarrow>
   axios_post_result w = Inl e \<Longrightarrow>
   effects w =
     log_header w @ created_events w l @ token_events w @
     SetFailed (message e) # cleanup_events (linode_id l)"
  by (simp add: path_defs)

lemma effects_create_setup_fails:
  "getInput w ''organization'' \<noteq> [] \<Longrightarrow> getInput w ''repo_name'' \<noteq> [] \<Longrightarrow>
   getInput w ''action'' = ''create'' \<Longrightarrow> createLinode_result w = Inr l \<Longrightarrow>
   ssh_result w (ipv4 l) (getInput w ''root_password'') = Inr b \<Longrightarrow>
   axios_post_result w = Inr registrationToken \<Longrightarrow>
   execSync_result w (ssh_execs w (ipv4 l) (getInput w ''root_password'')) = Some e \<Longrightarrow>
   effects w =
     log_header w @ created_events w l @ token_events w @ setup_events w l registrationToken @
     LogError (S ''Runner setup failed: '' # message e) #
     SetFailed (message e) # cleanup_events (linode_id l)"
  by (simp add: path_defs)

lemma effects_create_done:
  "getInput w ''organization'' \<noteq> [] \<Longrightarrow> getInput w ''repo_name'' \<noteq> [] \<Longrightarrow>
   getInput w ''action'' = ''create'' \<Longrightarrow> createLinode_result w = Inr l \<Longrightarrow>
   ssh_result w (ipv4 l) (getInput w ''root_password'') = Inr b \<Longrightarrow>
   axios_post_result w = Inr registrationToken \<Longrightarrow>
   execSync_result w (ssh_execs w (ipv4 l) (getInput w ''root_password'')) = None \<Longrightarrow>
   effects w =
     log_header w @ created_events w l @ token_events w @ setup_events w l registrationToken @
     [Info [S ''GitHub runner setup completed successfully.''],
      SetOutput ''runner_label'' (S (baseLabel_of w))]"
  by (simp add: path_defs)

section \<open>The observations on the parts of a run\<close>

lemmas obs_simps = log_header_def created_events_def token_events_def setup_events_def
  cleanup_events_def destroy_events_def unregistration_events_def
  delete_targets_append failures_append outputs_append
  quiet_delete_targets [OF ssh_events_quiet] quiet_failures [OF ssh_events_quiet]
  quiet_outputs [OF ssh_events_quiet]
  quiet_delete_targets [OF unreg_events_quiet] quiet_failures [OF unreg_events_quiet]
  quiet_outputs [OF unreg_events_quiet]

lemma calls_append: "calls (xs @ ys) = calls xs @ calls ys"
  by (simp add: calls_def)

lemma calls_log_header: "calls (log_header w) = []"
  by (simp add: calls_def log_header_def)

lemma calls_simps:
  "calls [] = []"
  "calls (Info m # es) = calls es"
  "calls (LogError m # es) = calls es"
  "calls (SetFailed m # es) = calls es"
  "calls (SetOutput n v # es) = calls es"
  "calls (Sleep d # es) = calls es"
  "calls (ExecSync c # es) = ExecSync c # calls es"
  "calls (CreateLinode r # es) = CreateLinode r # calls es"
  "calls (GetLinodes # es) = GetLinodes # calls es"
  "calls (DeleteLinode i # es) = DeleteLinode i # calls es"
  "calls (AxiosGet u t # es) = AxiosGet u t # calls es"
  "calls (AxiosPost u t # es) = AxiosPost u t # calls es"
  "calls (AxiosDelete u t # es) = AxiosDelete u t # calls es"
  by (simp_all add: calls_def)

lemma outputs_destroy_events: "outputs (destroy_events w t) = []"
  by (simp add: obs_simps split: sum.splits option.splits)

lemma GetLinodes_not_quiet: "list_all quiet evs \<Longrightarrow> GetLinodes \<notin> set evs"
  by (auto simp: list_all_iff)

subsection \<open>unregisterRunner\<close>

text \<open>
  \<open>unregisterRunner\<close> throws exactly when one of its two requests is rejected, and
  then the last thing it does is to log the error; a delete that resolves with a status
  other than 204 is logged too, and the function returns.
\<close>

lemma unregistration_outcome:
  "unregistration w =
     (case axios_get_result w of
        Inl e \<Rightarrow> Inl e
      | Inr runners \<Rightarrow>
          (case find (\<lambda>r. list_ex (\<lambda>l. l = baseLabel_of w) (labels r)) runners of
             None \<Rightarrow> Inr ()
           | Some r \<Rightarrow>
               (case axios_delete_result w (runner_id r) of
                  Inl e \<Rightarrow> Inl e
                | Inr st \<Rightarrow> Inr ())))"
  unfolding unregistration_def unreg_result_def unregisterRunner_def init_def
  by (auto simp: io_defs split: sum.splits option.splits prod.splits)

lemma unregistration_logs_rejection:
  "unregistration w = Inl e \<Longrightarrow>
   last (unregistration_events w) =
     LogError (case response e of
                 Some (status, statusText) \<Rightarrow>
                   if status = 422 then
                     [S ''Failed to unregister runner: '', N status, S '' - '', S statusText]
                   else S ''Failed to unregister runner: '' # message e
               | None \<Rightarrow> S ''Failed to unregister runner: '' # message e)"
  unfolding unregistration_def unregistration_events_def unreg_result_def unreg_events_def
    unregisterRunner_def init_def
  by (auto simp: io_defs split: sum.splits option.splits prod.splits)

lemma unregistration_logs_status:
  "axios_get_result w = Inr runners \<Longrightarrow>
   find (\<lambda>r. list_ex (\<lambda>l. l = baseLabel_of w) (labels r)) runners = Some r \<Longrightarrow>
   axios_delete_result w (runner_id r) = Inr (status, statusText) \<Longrightarrow> status \<noteq> 204 \<Longrightarrow>
   last (unregistration_events w) =
     LogError [S ''Failed to unregister runner: '', N status, S '' - '', S statusText]"
  unfolding unregistration_def unregistration_events_def unreg_result_def unreg_events_def
    unregisterRunner_def init_def
  by (auto simp: io_defs split: sum.splits option.splits prod.splits)

lemma unregisterRunner_inputs:
  "unregisterRunner (w\<lparr>getInput := f\<rparr>) = unregisterRunner w"
  unfolding unregisterRunner_def axios_get_def axios_delete_def
  by (simp cong: option.case_cong)

lemma unreg_result_inputs:
  "unreg_result (w\<lparr>getInput := f\<rparr>) a b c d = unreg_result w a b c d"
  unfolding unreg_result_def unregisterRunner_inputs ..

lemma unreg_events_inputs:
  "unreg_events (w\<lparr>getInput := f\<rparr>) a b c d = unreg_events w a b c d"
  unfolding unreg_events_def unregisterRunner_inputs ..

subsection \<open>A destroy request with a target\<close>

lemma destroy_effects:
  assumes "getInput w ''action'' = ''destroy''"
    and "getInput w ''organization'' \<noteq> []" and "getInput w ''repo_name'' \<noteq> []"
    and "destroy_target w = Some t"
  shows "\<exists>pre. effects w = log_header w @ pre @ destroy_events w t \<and>
               delete_targets pre = [] \<and> failures pre = []"
proof (cases "getInput w ''machine_id'' = []")
  case False
  with assms(4) have t: "t = S (getInput w ''machine_id'')"
    by (simp add: destroy_target_def)
  show ?thesis
    unfolding effects_destroy_by_id [OF assms(2,3,1) False] t
    by (intro exI [of _ "[Info [S ''Destroying Linode instance with ID '',
                                S (getInput w ''machine_id''), S ''...'']]"]) simp
next
  case m: True
  with assms(4) have p: "getInput w ''search_phrase'' \<noteq> []"
    by (auto simp: destroy_target_def split: if_splits)
  from assms(4) m p obtain instances found
    where i: "getLinodes_result w = Inr instances"
      and f: "filter (matches (getInput w ''search_phrase'')) instances = [found]"
      and t: "t = N (linode_id found)"
    by (auto simp: destroy_target_def split: sum.splits list.splits)
  show ?thesis
    unfolding effects_destroy_one_match [OF assms(2,3,1) m p i f] t
    by (intro exI [of _ "[Info [S ''Searching for Linode instances matching phrase '',
                                S [CHR 0x22], S (getInput w ''search_phrase''), S [CHR 0x22],
                                S ''...''],
                          GetLinodes,
                          Info [S ''Found single matching instance with ID '',
                                N (linode_id found), S '', destroying...'']]"]) simp
qed

lemma destroy_unregistration_cases:
  assumes "getInput w ''action'' = ''destroy''"
    and "getInput w ''organization'' \<noteq> []" and "getInput w ''repo_name'' \<noteq> []"
    and "destroy_target w = Some t"
  shows
    "(unregistration w = Inr () \<longrightarrow>
        delete_targets (effects w) = [t] \<and>
        (\<exists>pre post. effects w = pre @ unregistration_events w @ DeleteLinode t # post)) \<and>
     (\<forall>e. unregistration w = Inl e \<longrightarrow>
        delete_targets (effects w) = [] \<and> failures (effects w) = [message e] \<and>
        last (unregistration_events w) =
          LogError (case response e of
                      Some (status, statusText) \<Rightarrow>
                        if status = 422 then
                          [S ''Failed to unregister runner: '', N status, S '' - '', S statusText]
                        else S ''Failed to unregister runner: '' # message e
                    | None \<Rightarrow> S ''Failed to unregister runner: '' # message e)) \<and>
     (\<forall>runners r status statusText.
        axios_get_result w = Inr runners \<and>
        find (\<lambda>r. list_ex (\<lambda>l. l = baseLabel_of w) (labels r)) runners = Some r \<and>
        axios_delete_result w (runner_id r) = Inr (status, statusText) \<and> status \<noteq> 204 \<longrightarrow>
        unregistration w = Inr () \<and>
        last (unregistration_events w) =
          LogError [S ''Failed to unregister runner: '', N status, S '' - '', S statusText]) \<and>
     (\<forall>e. axios_get_result w = Inl e \<longrightarrow> unregistration w = Inl e) \<and>
     (\<forall>runners r e.
        axios_get_result w = Inr runners \<and>
        find (\<lambda>r. list_ex (\<lambda>l. l = baseLabel_of w) (labels r)) runners = Some r \<and>
        axios_delete_result w (runner_id r) = Inl e \<longrightarrow>
        unregistration w = Inl e)"
proof -
  from destroy_effects [OF assms] obtain pre
    where eff: "effects w = log_header w @ pre @ destroy_events w t"
      and pre: "delete_targets pre = []" "failures pre = []"
    by blast
  have ok: "unregistration w = Inr () \<longrightarrow>
        delete_targets (effects w) = [t] \<and>
        (\<exists>pre post. effects w = pre @ unregistration_events w @ DeleteLinode t # post)"
  proof
    assume u: "unregistration w = Inr ()"
    have "delete_targets (effects w) = [t]"
      by (simp add: eff pre u obs_simps split: option.splits)
    moreover have "effects w = (log_header w @ pre) @ unregistration_events w @
        DeleteLinode t #
          (case deleteLinode_result w t of
             None \<Rightarrow> [Info [S ''Linode machine '', t, S '' destroyed successfully.'']]
           | Some e \<Rightarrow> [SetFailed (message e)])"
      by (simp add: eff u destroy_events_def)
    ultimately show "delete_targets (effects w) = [t] \<and>
        (\<exists>pre post. effects w = pre @ unregistration_events w @ DeleteLinode t # post)"
      by blast
  qed
  have bad: "\<forall>e. unregistration w = Inl e \<longrightarrow>
        delete_targets (effects w) = [] \<and> failures (effects w) = [message e] \<and>
        last (unregistration_events w) =
          LogError (case response e of
                      Some (status, statusText) \<Rightarrow>
                        if status = 422 then
                          [S ''Failed to unregister runner: '', N status, S '' - '', S statusText]
                        else S ''Failed to unregister runner: '' # message e
                    | None \<Rightarrow> S ''Failed to unregister runner: '' # message e)"
  proof (intro allI impI)
    fix e assume u: "unregistration w = Inl e"
    have "delete_targets (effects w) = []" "failures (effects w) = [message e]"
      by (simp_all add: eff pre u obs_simps)
    with unregistration_logs_rejection [OF u]
    show "delete_targets (effects w) = [] \<and> failures (effects w) = [message e] \<and>
        last (unregistration_events w) =
          LogError (case response e of
                      Some (status, statusText) \<Rightarrow>
                        if status = 422 then
                          [S ''Failed to unregister runner: '', N status, S '' - '', S statusText]
                        else S ''Failed to unregister runner: '' # message e
                    | None \<Rightarrow> S ''Failed to unregister runner: '' # message e)"
      by simp
  qed
  have status: "\<forall>runners r status statusText.
        axios_get_result w = Inr runners \<and>
        find (\<lambda>r. list_ex (\<lambda>l. l = baseLabel_of w) (labels r)) runners = Some r \<and>
        axios_delete_result w (runner_id r) = Inr (status, statusText) \<and> status \<noteq> 204 \<longrightarrow>
        unregistration w = Inr () \<and>
        last (unregistration_events w) =
          LogError [S ''Failed to unregister runner: '', N status, S '' - '', S statusText]"
    by (auto simp: unregistration_outcome dest: unregistration_logs_status)
  have rej1: "\<forall>e. axios_get_result w = Inl e \<longrightarrow> unregistration w = Inl e"
    by (simp add: unregistration_outcome)
  have rej2: "\<forall>runners r e.
        axios_get_result w = Inr runners \<and>
        find (\<lambda>r. list_ex (\<lambda>l. l = baseLabel_of w) (labels r)) runners = Some r \<and>
        axios_delete_result w (runner_id r) = Inl e \<longrightarrow>
        unregistration w = Inl e"
    by (simp add: unregistration_outcome)
  from ok bad status rej1 rej2 show ?thesis by blast
qed

lemma unregistration_outcome_inputs:
  "unregistration w =
     (case axios_get_result w of
        Inl e \<Rightarrow> Inl e
      | Inr runners \<Rightarrow>
          (case find (\<lambda>r. list_ex (\<lambda>l. l = js_or (getInput w ''runner_label'') ''self-hosted'')
                             (labels r)) runners of
             None \<Rightarrow> Inr ()
           | Some r \<Rightarrow>
               (case axios_delete_result w (runner_id r) of
                  Inl e \<Rightarrow> Inl e
                | Inr st \<Rightarrow> Inr ())))"
  unfolding unregistration_outcome [of w] baseLabel_of_def ..

lemma unregistration_calls:
  "calls (unregistration_events w) =
     AxiosGet (runners_url (getInput w ''organization'') (getInput w ''repo_name''))
       (getInput w ''github_token'') #
     (case axios_get_result w of
        Inl e \<Rightarrow> []
      | Inr runners \<Rightarrow>
          (case find (\<lambda>r. list_ex (\<lambda>l. l = js_or (getInput w ''runner_label'') ''self-hosted'')
                             (labels r)) runners of
             None \<Rightarrow> []
           | Some r \<Rightarrow>
               [AxiosDelete
                  (runners_url (getInput w ''organization'') (getInput w ''repo_name'') @
                   [S ''/'', N (runner_id r)])
                  (getInput w ''github_token'')]))"
  unfolding unregistration_events_def unreg_events_def unregisterRunner_def init_def
    baseLabel_of_def
  by (auto simp: io_defs calls_simps calls_append split: sum.splits option.splits prod.splits)

lemma destroy_calls:
  assumes "getInput w ''action'' = ''destroy''"
    and "getInput w ''organization'' \<noteq> []" and "getInput w ''repo_name'' \<noteq> []"
    and "destroy_target w = Some t"
  shows "calls (effects w) =
     (if getInput w ''machine_id'' \<noteq> [] then [] else [GetLinodes]) @
     AxiosGet (runners_url (getInput w ''organization'') (getInput w ''repo_name''))
       (getInput w ''github_token'') #
     (case axios_get_result w of
        Inl e \<Rightarrow> []
      | Inr runners \<Rightarrow>
          (case find (\<lambda>r. list_ex (\<lambda>l. l = js_or (getInput w ''runner_label'') ''self-hosted'')
                             (labels r)) runners of
             None \<Rightarrow> [DeleteLinode t]
           | Some r \<Rightarrow>
               AxiosDelete
                 (runners_url (getInput w ''organization'') (getInput w ''repo_name'') @
                  [S ''/'', N (runner_id r)])
                 (getInput w ''github_token'') #
               (case axios_delete_result w (runner_id r) of
                  Inl e \<Rightarrow> []
                | Inr st \<Rightarrow> [DeleteLinode t])))"
proof (cases "getInput w ''machine_id'' = []")
  case False
  with assms(4) have t: "t = S (getInput w ''machine_id'')"
    by (simp add: destroy_target_def)
  show ?thesis
    unfolding effects_destroy_by_id [OF assms(2,3,1) False] t
    by (simp add: calls_append calls_log_header calls_simps destroy_events_def
        unregistration_calls unregistration_outcome baseLabel_of_def False
        split: sum.splits option.splits)
next
  case m: True
  with assms(4) have p: "getInput w ''search_phrase'' \<noteq> []"
    by (auto simp: destroy_target_def split: if_splits)
  from assms(4) m p obtain instances found
    where i: "getLinodes_result w = Inr instances"
      and f: "filter (matches (getInput w ''search_phrase'')) instances = [found]"
      and t: "t = N (linode_id found)"
    by (auto simp: destroy_target_def split: sum.splits list.splits)
  show ?thesis
    unfolding effects_destroy_one_match [OF assms(2,3,1) m p i f] t
    by (simp add: calls_append calls_log_header calls_simps destroy_events_def
        unregistration_calls unregistration_outcome baseLabel_of_def m
        split: sum.splits option.splits)
qed

lemma destroy_failures:
  assumes "getInput w ''action'' = ''destroy''"
    and "getInput w ''organization'' \<noteq> []" and "getInput w ''repo_name'' \<noteq> []"
    and "destroy_target w = Some t"
  shows "failures (effects w) =
     (case unregistration w of
        Inl e \<Rightarrow> [message e]
      | Inr u \<Rightarrow> (case deleteLinode_result w t of None \<Rightarrow> [] | Some e \<Rightarrow> [message e]))"
proof -
  from destroy_effects [OF assms] obtain pre
    where eff: "effects w = log_header w @ pre @ destroy_events w t"
      and pre: "delete_targets pre = []" "failures pre = []"
    by blast
  show ?thesis
    by (simp add: eff pre obs_simps split: sum.splits option.splits)
qed

lemma destroy_delete_targets:
  assumes "getInput w ''action'' = ''destroy''"
    and "getInput w ''organization'' \<noteq> []" and "getInput w ''repo_name'' \<noteq> []"
    and "destroy_target w = Some t"
  shows "delete_targets (effects w) =
     (case axios_get_result w of
        Inl e \<Rightarrow> []
      | Inr runners \<Rightarrow>
          (case find (\<lambda>r. list_ex (\<lambda>l. l = js_or (getInput w ''runner_label'') ''self-hosted'')
                             (labels r)) runners of
             None \<Rightarrow> [t]
           | Some r \<Rightarrow>
               (case axios_delete_result w (runner_id r) of
                  Inl e \<Rightarrow> []
                | Inr st \<Rightarrow> [t])))"
proof -
  from destroy_effects [OF assms] obtain pre
    where eff: "effects w = log_header w @ pre @ destroy_events w t"
      and pre: "delete_targets pre = []" "failures pre = []"
    by blast
  show ?thesis
    by (simp add: eff pre obs_simps unregistration_outcome baseLabel_of_def
        split: sum.splits option.splits)
qed

lemma destroy_by_id_ignores_phrase:
  assumes "getInput w ''action'' = ''destroy''"
    and "getInput w ''organization'' \<noteq> []" and "getInput w ''repo_name'' \<noteq> []"
    and "getInput w ''machine_id'' \<noteq> []" and "getInput w ''search_phrase'' \<noteq> []"
  shows "GetLinodes \<notin> set (effects w) \<and>
         calls (effects w) =
           calls (unregistration_events w) @
           (case unregistration w of
              Inl e \<Rightarrow> []
            | Inr u \<Rightarrow> [DeleteLinode (S (getInput w ''machine_id''))]) \<and>
         delete_targets (effects w) =
           (case unregistration w of
              Inl e \<Rightarrow> []
            | Inr u \<Rightarrow> [S (getInput w ''machine_id'')]) \<and>
         effects w = effects (w\<lparr>getInput := (getInput w)(''search_phrase'' := [])\<rparr>)"
proof -
  let ?w = "w\<lparr>getInput := (getInput w)(''search_phrase'' := [])\<rparr>"
  note e = effects_destroy_by_id [OF assms(2,3,1,4)]
  have e': "effects ?w =
     log_header ?w @
     [Info [S ''Destroying Linode instance with ID '', S (getInput ?w ''machine_id''), S ''...'']] @
     destroy_events ?w (S (getInput ?w ''machine_id''))"
    by (rule effects_destroy_by_id) (simp_all add: assms)
  have same: "log_header ?w = log_header w" "getInput ?w ''machine_id'' = getInput w ''machine_id''"
    "destroy_events ?w t = destroy_events w t" for t
    by (simp_all add: log_header_def baseLabel_of_def destroy_events_def unregistration_def
        unregistration_events_def unreg_result_inputs unreg_events_inputs
        cong: sum.case_cong)
  have q: "GetLinodes \<notin> set (unregistration_events w)"
    unfolding unregistration_events_def by (rule GetLinodes_not_quiet [OF unreg_events_quiet])
  have 1: "GetLinodes \<notin> set (effects w)"
    using q by (simp add: e log_header_def destroy_events_def split: sum.splits option.splits)
  have 2: "calls (effects w) =
           calls (unregistration_events w) @
           (case unregistration w of
              Inl e \<Rightarrow> []
            | Inr u \<Rightarrow> [DeleteLinode (S (getInput w ''machine_id''))])"
    by (simp add: e calls_append calls_log_header calls_simps destroy_events_def
        split: sum.splits option.splits)
  have 3: "delete_targets (effects w) =
           (case unregistration w of
              Inl e \<Rightarrow> []
            | Inr u \<Rightarrow> [S (getInput w ''machine_id'')])"
    by (simp add: e obs_simps split: sum.splits option.splits)
  have 4: "effects w = effects ?w"
    unfolding e e' same ..
  from 1 2 3 4 show ?thesis by blast
qed

subsection \<open>The example worlds\<close>

lemma ssh_result_never:
  "ssh_result w_create_ssh_never ''192.0.2.7'' ''secret'' =
     Inl (Error [S ''Unable to connect to '', S ''192.0.2.7'', S '' after '', N 10, S '' attempts.''])"
  unfolding ssh_result_def waitForSSH_def
  using loop_exhausts [of 10 0 w_create_ssh_never init "''192.0.2.7''" "''secret''" 30000]
  by (simp add: w_create_ssh_never_def w_ssh_never_def)

lemma effects_ssh_never:
  "effects w_create_ssh_never =
     log_header w_create_ssh_never @
     created_events w_create_ssh_never
       \<lparr>linode_id = 123, ipv4 = ''192.0.2.7'', label = ''self-hosted'', tags = []\<rparr> @
     SetFailed [S ''Unable to connect to '', S ''192.0.2.7'', S '' after '', N 10, S '' attempts.''] #
     cleanup_events 123"
  using effects_create_unreachable [of w_create_ssh_never
      "\<lparr>linode_id = 123, ipv4 = ''192.0.2.7'', label = ''self-hosted'', tags = []\<rparr>"
      "Error [S ''Unable to connect to '', S ''192.0.2.7'', S '' after '', N 10, S '' attempts.'']"]
    ssh_result_never
  by (simp add: w_create_ssh_never_def w_ssh_never_def w_base_def create_inputs_def inputs_of_def)

lemmas destroy_world_simps = w_destroy_unreg_500_def w_destroy_unreg_202_def w_base_def
  destroy_inputs_def inputs_of_def

lemma unregistration_500:
  "unregistration w_destroy_unreg_500 =
     Inl (RequestError [S ''Request failed with status code 500'']
            (Some (500, ''Internal Server Error'')))"
  by (simp add: unregistration_outcome baseLabel_of_def js_or_def destroy_world_simps)

lemma unregistration_202: "unregistration w_destroy_unreg_202 = Inr ()"
  by (simp add: unregistration_outcome baseLabel_of_def js_or_def destroy_world_simps)

lemmas unreg_world_simps = w_destroy_unreg_204_def w_destroy_no_runner_def destroy_world_simps

section \<open>The readiness probe\<close>

text \<open>
  C5. For every \<open>n\<close> below the number of attempts allowed (10 when \<open>retries\<close> is
  not passed), when the next \<open>n\<close> commands fail and the one after them succeeds,
  \<open>waitForSSH\<close> returns \<open>true\<close>, has run exactly \<open>n + 1\<close> commands and has slept
  exactly \<open>n\<close> times, each time for the same \<open>delay\<close> (30000 ms when it is not
  passed).
\<close>

theorem waitForSSH_succeeds_after_failures:
  assumes "n < (case retries of None \<Rightarrow> 10 | Some r \<Rightarrow> r)"
    and "\<forall>k<n. execSync_result w (execs s + k) \<noteq> None"
    and "execSync_result w (execs s + n) = None"
  shows "fst (waitForSSH w ip pw retries delay s) = Inr True \<and>
         attempts (trace (snd (waitForSSH w ip pw retries delay s))) =
           attempts (trace s) + (n + 1) \<and>
         sleeps (trace (snd (waitForSSH w ip pw retries delay s))) =
           sleeps (trace s) @ replicate n (case delay of None \<Rightarrow> 30000 | Some d \<Rightarrow> d)"
  unfolding waitForSSH_def
  using loop_succeeds [of 0 n _ w s ip pw, OF _ assms(2) assms(3)] assms(1)
  by simp

theorem waitForSSH_succeeds_after_failures_witness:
  "execSync_result w_ssh_third 0 \<noteq> None \<and>
   execSync_result w_ssh_third 1 \<noteq> None \<and>
   execSync_result w_ssh_third 2 = None \<and>
   fst (waitForSSH w_ssh_third ''192.0.2.7'' ''secret'' None None init) = Inr True \<and>
   attempts (trace (snd (waitForSSH w_ssh_third ''192.0.2.7'' ''secret'' None None init))) = 3 \<and>
   sleeps (trace (snd (waitForSSH w_ssh_third ''192.0.2.7'' ''secret'' None None init))) =
     [30000, 30000]"
proof -
  have h1: "(2::nat) < (case None of None \<Rightarrow> 10 | Some r \<Rightarrow> r)" by simp
  have h2: "\<forall>k<2. execSync_result w_ssh_third (execs init + k) \<noteq> None"
    by (simp add: w_ssh_third_def init_def)
  have h3: "execSync_result w_ssh_third (execs init + 2) = None"
    by (simp add: w_ssh_third_def init_def)
  have "execSync_result w_ssh_third 0 \<noteq> None \<and> execSync_result w_ssh_third 1 \<noteq> None \<and>
        execSync_result w_ssh_third 2 = None"
    by (simp add: w_ssh_third_def)
  then show ?thesis
    using waitForSSH_succeeds_after_failures [OF h1 h2 h3, of "''192.0.2.7''" "''secret''" None]
    by (simp add: init_def numeral_2_eq_2)
qed

text \<open>
  C6. When every command that the number of attempts allows fails, \<open>waitForSSH\<close>
  runs exactly that many commands (10 when \<open>retries\<close> is not passed, each followed
  by a sleep of \<open>delay\<close>, 30000 ms when it is not passed) and then throws an error
  whose message names the address and the number of attempts.
\<close>

theorem waitForSSH_exhausts:
  assumes "\<forall>k<(case retries of None \<Rightarrow> 10 | Some r \<Rightarrow> r).
             execSync_result w (execs s + k) \<noteq> None"
  shows "fst (waitForSSH w ip pw retries delay s) =
           Inl (Error [S ''Unable to connect to '', S ip, S '' after '',
                       N (case retries of None \<Rightarrow> 10 | Some r \<Rightarrow> r), S '' attempts.'']) \<and>
         attempts (trace (snd (waitForSSH w ip pw retries delay s))) =
           attempts (trace s) + (case retries of None \<Rightarrow> 10 | Some r \<Rightarrow> r) \<and>
         sleeps (trace (snd (waitForSSH w ip pw retries delay s))) =
           sleeps (trace s) @ replicate (case retries of None \<Rightarrow> 10 | Some r \<Rightarrow> r)
                                        (case delay of None \<Rightarrow> 30000 | Some d \<Rightarrow> d)"
  unfolding waitForSSH_def
  using loop_exhausts [of _ 0 w s ip pw] assms
  by simp

theorem waitForSSH_exhausts_witness:
  "list_all (\<lambda>k. execSync_result w_ssh_never k \<noteq> None) [0..<10] \<and>
   fst (waitForSSH w_ssh_never ''192.0.2.7'' ''secret'' None None init) =
     Inl (Error [S ''Unable to connect to '', S ''192.0.2.7'', S '' after '', N 10,
                 S '' attempts.'']) \<and>
   attempts (trace (snd (waitForSSH w_ssh_never ''192.0.2.7'' ''secret'' None None init))) = 10 \<and>
   sleeps (trace (snd (waitForSSH w_ssh_never ''192.0.2.7'' ''secret'' None None init))) =
     replicate 10 30000"
proof -
  have h: "\<forall>k<(case None of None \<Rightarrow> 10 | Some r \<Rightarrow> r).
             execSync_result w_ssh_never (execs init + k) \<noteq> None"
    by (simp add: w_ssh_never_def)
  have "list_all (\<lambda>k. execSync_result w_ssh_never k \<noteq> None) [0..<10]"
    by (simp add: w_ssh_never_def list_all_iff)
  then show ?thesis
    using waitForSSH_exhausts [OF h, of "''192.0.2.7''" "''secret''" None]
    by (simp add: init_def)
qed

section \<open>The search policy\<close>

lemma take_is_prefix_iff: "take (length p) s = p \<longleftrightarrow> prefix p s"
  by (metis append_eq_conv_conj prefix_def take_is_prefix)

lemma str_includes_sublist: "str_includes s p \<longleftrightarrow> sublist p s"
  by (induction s) (simp_all add: sublist_Cons_right take_is_prefix_iff del: take_Suc_Cons)

text \<open>
  C4. For every instance and every phrase, the predicate of the filter holds exactly
  when the label contains the phrase as a substring, or the label equals the phrase, or
  the phrase is one of the tags of the instance.
\<close>

theorem matches_spec: "matches phrase instance = spec_matches phrase instance"
  by (simp add: matches_def spec_matches_def str_includes_sublist array_includes_def
      list_ex_iff)

section \<open>The tags\<close>

lemma split_str_not_empty: "split_str sep s \<noteq> []"
  by (induction s) (auto split: list.splits)

lemma length_split_str: "length (split_str sep s) = Suc (count_list s sep)"
  using split_str_not_empty [of sep]
  by (induction s) (auto split: list.splits)

lemma split_str_no_sep: "t \<in> set (split_str sep s) \<Longrightarrow> sep \<notin> set t"
  by (induction s arbitrary: t) (auto split: list.splits if_splits)

lemma trim_subset: "set (trim s) \<subseteq> set s"
proof -
  have "set (trim s) \<subseteq> set (rev (dropWhile js_whitespace s))"
    unfolding trim_def by (metis set_dropWhileD set_rev subsetI)
  also have "\<dots> \<subseteq> set s"
    by (metis set_dropWhileD set_rev subsetI)
  finally show ?thesis .
qed

lemma trim_last: "trim s \<noteq> [] \<Longrightarrow> \<not> js_whitespace (last (trim s))"
  unfolding trim_def by (simp add: last_rev hd_dropWhile)

lemma dropWhile_rev_hd:
  "dropWhile P (rev xs) \<noteq> [] \<Longrightarrow> \<not> P (hd xs) \<Longrightarrow> hd (rev (dropWhile P (rev xs))) = hd xs"
  by (induction xs rule: rev_induct) (auto split: if_splits simp: hd_append)

lemma trim_hd: "trim s \<noteq> [] \<Longrightarrow> \<not> js_whitespace (hd (trim s))"
proof -
  assume ne: "trim s \<noteq> []"
  let ?t = "dropWhile js_whitespace s"
  have t: "?t \<noteq> []" using ne unfolding trim_def by (auto dest: set_dropWhileD)
  then have h: "\<not> js_whitespace (hd ?t)" by (simp add: hd_dropWhile)
  have "hd (trim s) = hd ?t"
    unfolding trim_def using ne h by (intro dropWhile_rev_hd) (simp_all add: trim_def)
  with h show ?thesis by simp
qed

lemma join_str_Cons: "join_str sep ((c # t) # ts) = c # join_str sep (t # ts)"
  by (cases ts) simp_all

lemma join_split_str: "join_str sep (split_str sep s) = s"
proof (induction s)
  case Nil
  show ?case by simp
next
  case (Cons c s)
  obtain t ts where ts: "split_str sep s = t # ts"
    using split_str_not_empty [of sep s] by (cases "split_str sep s") auto
  with Cons show ?case by (auto simp: join_str_Cons)
qed

lemma trim_decomposition:
  "p = takeWhile js_whitespace p @ trim p @
       rev (takeWhile js_whitespace (rev (dropWhile js_whitespace p)))"
proof -
  let ?d = "dropWhile js_whitespace p"
  have d: "?d = trim p @ rev (takeWhile js_whitespace (rev ?d))"
    unfolding trim_def by (metis rev_append rev_rev_ident takeWhile_dropWhile_id)
  have "p = takeWhile js_whitespace p @ ?d" by simp
  with d show ?thesis by metis
qed

lemma trim_between_whitespace:
  "\<exists>pre post. p = pre @ trim p @ post \<and> list_all js_whitespace pre \<and>
     list_all js_whitespace post"
proof (intro exI conjI)
  show "p = takeWhile js_whitespace p @ trim p @
       rev (takeWhile js_whitespace (rev (dropWhile js_whitespace p)))"
    by (rule trim_decomposition)
  show "list_all js_whitespace (takeWhile js_whitespace p)"
    by (simp add: list_all_iff) (meson set_takeWhileD)
  show "list_all js_whitespace (rev (takeWhile js_whitespace (rev (dropWhile js_whitespace p))))"
    by (simp add: list_all_iff) (meson set_takeWhileD)
qed

text \<open>
  C8, as the claim states it, fails: the tokens are not filtered, so two commas in a
  row leave an empty token in the result.
\<close>

theorem parse_tags_keeps_empty_token:
  "parse_tags ''a,,b'' = [''a'', [], ''b''] \<and> [] \<in> set (parse_tags ''a,,b'')"
  by (simp add: parse_tags_def trim_def js_whitespace_def)

text \<open>
  C8, amended. Tag parsing yields the list of the trimmed pieces between the commas of
  the input: \<open>"a, b ,c"\<close> yields \<open>a\<close>, \<open>b\<close>, \<open>c\<close> and the empty string yields
  the empty list. For an input that is not empty there are pieces without a comma that,
  joined by commas, give the input, one more than the input has commas; the tokens are
  these pieces in order, each token being its piece without the white space before and
  after it: what is cut off at either end is white space only, and no token begins or
  ends with white space. No token contains a comma. Empty tokens are kept.
\<close>

theorem parse_tags_tokens:
  "parse_tags ''a, b ,c'' = [''a'', ''b'', ''c''] \<and>
   parse_tags [] = [] \<and>
   length (parse_tags input) = (if input = [] then 0 else Suc (count_list input CHR '','')) \<and>
   (\<forall>t \<in> set (parse_tags input).
      CHR '','' \<notin> set t \<and>
      (t \<noteq> [] \<longrightarrow> \<not> js_whitespace (hd t) \<and> \<not> js_whitespace (last t))) \<and>
   (input \<noteq> [] \<longrightarrow>
      (\<exists>pieces.
         join_str CHR '','' pieces = input \<and>
         (\<forall>p \<in> set pieces. CHR '','' \<notin> set p) \<and>
         list_all2
           (\<lambda>p t. \<exists>pre post. p = pre @ t @ post \<and> list_all js_whitespace pre \<and>
                     list_all js_whitespace post)
           pieces (parse_tags input)))"
proof (intro conjI ballI impI)
  show "parse_tags ''a, b ,c'' = [''a'', ''b'', ''c'']"
    by (simp add: parse_tags_def trim_def js_whitespace_def)
  show "parse_tags [] = []" by (simp add: parse_tags_def)
  show "length (parse_tags input) = (if input = [] then 0 else Suc (count_list input CHR '',''))"
    by (simp add: parse_tags_def length_split_str)
next
  fix t assume "t \<in> set (parse_tags input)"
  then obtain f where f: "f \<in> set (split_str CHR '','' input)" and t: "t = trim f"
    by (auto simp: parse_tags_def split: if_splits)
  show "CHR '','' \<notin> set t"
    using split_str_no_sep [OF f] trim_subset [of f] t by auto
  assume "t \<noteq> []"
  then show "\<not> js_whitespace (hd t)" "\<not> js_whitespace (last t)"
    using t trim_hd [of f] trim_last [of f] by simp_all
next
  assume ne: "input \<noteq> []"
  let ?pieces = "split_str CHR '','' input"
  have "list_all2
           (\<lambda>p t. \<exists>pre post. p = pre @ t @ post \<and> list_all js_whitespace pre \<and>
                     list_all js_whitespace post)
           ?pieces (map trim ?pieces)"
    by (simp add: list_all2_map2 list_all2_same trim_between_whitespace)
  then show "\<exists>pieces.
         join_str CHR '','' pieces = input \<and>
         (\<forall>p \<in> set pieces. CHR '','' \<notin> set p) \<and>
         list_all2
           (\<lambda>p t. \<exists>pre post. p = pre @ t @ post \<and> list_all js_whitespace pre \<and>
                     list_all js_whitespace post)
           pieces (parse_tags input)"
    using ne by (intro exI [of _ ?pieces]) (simp add: parse_tags_def join_split_str split_str_no_sep)
qed

theorem parse_tags_tokens_witness:
  "parse_tags ''linux x64,, gpu '' = [''linux x64'', [], ''gpu''] \<and>
   length (parse_tags ''linux x64,, gpu '') = 3 \<and>
   CHR '','' \<notin> set ''gpu'' \<and> \<not> js_whitespace (hd ''gpu'') \<and> \<not> js_whitespace (last ''gpu'') \<and>
   (\<exists>pieces.
      join_str CHR '','' pieces = ''linux x64,, gpu '' \<and>
      list_all2
        (\<lambda>p t. \<exists>pre post. p = pre @ t @ post \<and> list_all js_whitespace pre \<and>
                  list_all js_whitespace post)
        pieces [''linux x64'', [], ''gpu''])"
proof -
  have v: "parse_tags ''linux x64,, gpu '' = [''linux x64'', [], ''gpu'']"
    by (simp add: parse_tags_def trim_def js_whitespace_def)
  then have h: "''gpu'' \<in> set (parse_tags ''linux x64,, gpu '')" by simp
  have n: "''linux x64,, gpu '' \<noteq> []" by simp
  from parse_tags_tokens [of "''linux x64,, gpu ''"] n
  have "\<exists>pieces.
      join_str CHR '','' pieces = ''linux x64,, gpu '' \<and>
      list_all2
        (\<lambda>p t. \<exists>pre post. p = pre @ t @ post \<and> list_all js_whitespace pre \<and>
                  list_all js_whitespace post)
        pieces (parse_tags ''linux x64,, gpu '')"
    by blast
  then show ?thesis
    using v h parse_tags_tokens [of "''linux x64,, gpu ''"] by auto
qed

section \<open>The cleanup after a failed create\<close>

text \<open>
  C1. The claim: when \<open>createLinode\<close> has succeeded and a later step fails, the
  cleanup deletes the instance exactly once, and the error of the cleanup is logged, not
  reported. The code does not delete it. For every create request with a repository,
  when \<open>createLinode\<close> resolved with an instance whose id is not 0 and the run
  reported a failure (which can then only come from the probe, the registration token or
  the setup of the runner): no deletion is requested at all, exactly one failure is
  reported, and the last event is the log line of the \<open>ReferenceError\<close> that line 190
  throws before \<open>unregisterRunner\<close> and \<open>deleteLinode\<close> are called.
\<close>

theorem create_failure_skips_delete:
  assumes "getInput w ''action'' = ''create''"
    and "getInput w ''organization'' \<noteq> []" and "getInput w ''repo_name'' \<noteq> []"
    and "createLinode_result w = Inr l" and "linode_id l \<noteq> 0"
    and "failures (effects w) \<noteq> []"
  shows "delete_targets (effects w) = [] \<and>
         length (failures (effects w)) = 1 \<and>
         last (effects w) =
           LogError [S ''Failed to destroy Linode machine '', N (linode_id l),
                     S '' during cleanup: '', S ''repoOwner'', S '' is not defined'']"
proof (cases "ssh_result w (ipv4 l) (getInput w ''root_password'')")
  case (Inl e)
  show ?thesis
    using assms(5) by (simp add: effects_create_unreachable [OF assms(2,3,1,4) Inl] obs_simps)
next
  case (Inr b)
  show ?thesis
  proof (cases "axios_post_result w")
    case (Inl e)
    show ?thesis
      using assms(5) by (simp add: effects_create_no_token [OF assms(2,3,1,4) Inr Inl] obs_simps)
  next
    case tok: (Inr registrationToken)
    show ?thesis
    proof (cases "execSync_result w (ssh_execs w (ipv4 l) (getInput w ''root_password''))")
      case None
      with assms(6) show ?thesis
        by (simp add: effects_create_done [OF assms(2,3,1,4) Inr tok None] obs_simps)
    next
      case (Some e)
      show ?thesis
        using assms(5)
        by (simp add: effects_create_setup_fails [OF assms(2,3,1,4) Inr tok Some] obs_simps)
    qed
  qed
qed

theorem create_failure_skips_delete_witness:
  "failures (effects w_create_ssh_never) =
     [[S ''Unable to connect to '', S ''192.0.2.7'', S '' after '', N 10, S '' attempts.'']] \<and>
   delete_targets (effects w_create_ssh_never) = [] \<and>
   last (effects w_create_ssh_never) =
     LogError [S ''Failed to destroy Linode machine '', N 123, S '' during cleanup: '',
               S ''repoOwner'', S '' is not defined'']"
proof -
  let ?l = "\<lparr>linode_id = 123, ipv4 = ''192.0.2.7'', label = ''self-hosted'', tags = []\<rparr>"
  have f: "failures (effects w_create_ssh_never) =
     [[S ''Unable to connect to '', S ''192.0.2.7'', S '' after '', N 10, S '' attempts.'']]"
    by (simp add: effects_ssh_never obs_simps)
  have h1: "getInput w_create_ssh_never ''action'' = ''create''"
    and h2: "getInput w_create_ssh_never ''organization'' \<noteq> []"
    and h3: "getInput w_create_ssh_never ''repo_name'' \<noteq> []"
    and h4: "createLinode_result w_create_ssh_never = Inr ?l"
    by (simp_all add: w_create_ssh_never_def w_ssh_never_def w_base_def create_inputs_def
        inputs_of_def)
  have h5: "linode_id ?l \<noteq> 0" by simp
  have h6: "failures (effects w_create_ssh_never) \<noteq> []" using f by simp
  show ?thesis
    using f create_failure_skips_delete [OF h1 h2 h3 h4 h5 h6] by simp
qed

section \<open>The outputs\<close>

lemma outputs_characterised:
  "outputs (effects w) =
     (if getInput w ''organization'' \<noteq> [] \<and> getInput w ''repo_name'' \<noteq> [] \<and>
         getInput w ''action'' = ''create'' then
        (case createLinode_result w of
           Inl e \<Rightarrow> []
         | Inr l \<Rightarrow>
             [(''machine_id'', N (linode_id l)), (''machine_ip'', S (ipv4 l))] @
             (if failures (effects w) = [] then [(''runner_label'', S (baseLabel_of w))]
              else []))
      else [])"
proof (cases "getInput w ''organization'' = [] \<or> getInput w ''repo_name'' = []")
  case True
  then show ?thesis
    by (auto simp: effects_no_repository [OF True] obs_simps)
next
  case False
  then have o: "getInput w ''organization'' \<noteq> []" and r: "getInput w ''repo_name'' \<noteq> []"
    by simp_all
  consider (create) "getInput w ''action'' = ''create''"
    | (destroy) "getInput w ''action'' = ''destroy''"
    | (other) "getInput w ''action'' \<noteq> ''create''" "getInput w ''action'' \<noteq> ''destroy''"
    by blast
  then show ?thesis
  proof cases
    case create
    show ?thesis
    proof (cases "createLinode_result w")
      case (Inl e)
      show ?thesis
        by (simp add: effects_create_rejected [OF o r create Inl] Inl o r create obs_simps)
    next
      case l: (Inr l)
      show ?thesis
      proof (cases "ssh_result w (ipv4 l) (getInput w ''root_password'')")
        case (Inl e)
        show ?thesis
          by (simp add: effects_create_unreachable [OF o r create l Inl] l o r create obs_simps)
      next
        case b: (Inr b)
        show ?thesis
        proof (cases "axios_post_result w")
          case (Inl e)
          show ?thesis
            by (simp add: effects_create_no_token [OF o r create l b Inl] l o r create obs_simps)
        next
          case t: (Inr tok)
          show ?thesis
          proof (cases "execSync_result w (ssh_execs w (ipv4 l) (getInput w ''root_password''))")
            case None
            show ?thesis
              by (simp add: effects_create_done [OF o r create l b t None] l o r create obs_simps)
          next
            case (Some e)
            show ?thesis
              by (simp add: effects_create_setup_fails [OF o r create l b t Some] l o r create
                  obs_simps)
          qed
        qed
      qed
    qed
  next
    case destroy
    show ?thesis
    proof (cases "getInput w ''machine_id'' = []")
      case False
      show ?thesis
        by (simp add: effects_destroy_by_id [OF o r destroy False] destroy outputs_append
            outputs_destroy_events log_header_def)
    next
      case m: True
      show ?thesis
      proof (cases "getInput w ''search_phrase'' = []")
        case True
        show ?thesis
          by (simp add: effects_destroy_no_target [OF o r destroy m True] destroy obs_simps)
      next
        case p: False
        show ?thesis
        proof (cases "getLinodes_result w")
          case (Inl e)
          show ?thesis
            by (simp add: effects_destroy_search_fails [OF o r destroy m p Inl] destroy obs_simps)
        next
          case i: (Inr instances)
          show ?thesis
          proof (cases "filter (matches (getInput w ''search_phrase'')) instances")
            case Nil
            show ?thesis
              by (simp add: effects_destroy_no_match [OF o r destroy m p i Nil] destroy obs_simps)
          next
            case (Cons a rest)
            show ?thesis
            proof (cases rest)
              case Nil
              with Cons have one: "filter (matches (getInput w ''search_phrase'')) instances = [a]"
                by simp
              show ?thesis
                by (simp add: effects_destroy_one_match [OF o r destroy m p i one] destroy
                    outputs_append outputs_destroy_events log_header_def)
            next
              case (Cons b rest')
              with \<open>filter (matches (getInput w ''search_phrase'')) instances = a # rest\<close>
              have many: "filter (matches (getInput w ''search_phrase'')) instances = a # b # rest'"
                by simp
              show ?thesis
                by (simp add: effects_destroy_many_matches [OF o r destroy m p i many] destroy
                    obs_simps)
            qed
          qed
        qed
      qed
    qed
  next
    case other
    show ?thesis
      by (simp add: effects_invalid_action [OF o r other] other obs_simps)
  qed
qed

lemma create_effects_prefix:
  assumes o: "getInput w ''organization'' \<noteq> []" and r: "getInput w ''repo_name'' \<noteq> []"
    and c: "getInput w ''action'' = ''create''" and l: "createLinode_result w = Inr l"
  shows "\<exists>post. effects w = log_header w @ created_events w l @ post"
proof (cases "ssh_result w (ipv4 l) (getInput w ''root_password'')")
  case (Inl e)
  show ?thesis
    unfolding effects_create_unreachable [OF o r c l Inl] by blast
next
  case b: (Inr b)
  show ?thesis
  proof (cases "axios_post_result w")
    case (Inl e)
    show ?thesis
      unfolding effects_create_no_token [OF o r c l b Inl] by blast
  next
    case t: (Inr tok)
    show ?thesis
    proof (cases "execSync_result w (ssh_execs w (ipv4 l) (getInput w ''root_password''))")
      case None
      show ?thesis
        unfolding effects_create_done [OF o r c l b t None] by blast
    next
      case (Some e)
      show ?thesis
        unfolding effects_create_setup_fails [OF o r c l b t Some] by blast
    qed
  qed
qed

text \<open>
  C9, as the claim states it, fails: \<open>machine_id\<close> and \<open>machine_ip\<close> are set
  right after \<open>createLinode\<close> (lines 109 and 110), so a create that fails at the
  readiness probe has set both.
\<close>

theorem outputs_before_failure:
  "failures (effects w_create_ssh_never) =
     [[S ''Unable to connect to '', S ''192.0.2.7'', S '' after '', N 10, S '' attempts.'']] \<and>
   outputs (effects w_create_ssh_never) =
     [(''machine_id'', N 123), (''machine_ip'', S ''192.0.2.7'')]"
  by (simp add: effects_ssh_never obs_simps)

text \<open>
  C9, amended. The outputs of every invocation: none unless the request is a create
  with a repository and \<open>createLinode\<close> succeeds; then \<open>machine_id\<close> and
  \<open>machine_ip\<close>, whether or not the invocation fails afterwards; and
  \<open>runner_label\<close> after them exactly when the invocation reports no failure. When
  \<open>createLinode\<close> succeeds, the two outputs are set right after that call, which is
  the first external call of the run: no command of the readiness probe, and no other
  call, comes before them.
\<close>

theorem outputs_of_run:
  "outputs (effects w) =
     (if getInput w ''organization'' \<noteq> [] \<and> getInput w ''repo_name'' \<noteq> [] \<and>
         getInput w ''action'' = ''create'' then
        (case createLinode_result w of
           Inl e \<Rightarrow> []
         | Inr l \<Rightarrow>
             [(''machine_id'', N (linode_id l)), (''machine_ip'', S (ipv4 l))] @
             (if failures (effects w) = [] then [(''runner_label'', S (baseLabel_of w))]
              else []))
      else []) \<and>
   (\<forall>l. getInput w ''organization'' \<noteq> [] \<and> getInput w ''repo_name'' \<noteq> [] \<and>
        getInput w ''action'' = ''create'' \<and> createLinode_result w = Inr l \<longrightarrow>
        (\<exists>pre r post.
           effects w =
             pre @ CreateLinode r # SetOutput ''machine_id'' (N (linode_id l)) #
             SetOutput ''machine_ip'' (S (ipv4 l)) # post \<and>
           calls pre = []))"
proof (intro conjI allI impI)
  show "outputs (effects w) =
     (if getInput w ''organization'' \<noteq> [] \<and> getInput w ''repo_name'' \<noteq> [] \<and>
         getInput w ''action'' = ''create'' then
        (case createLinode_result w of
           Inl e \<Rightarrow> []
         | Inr l \<Rightarrow>
             [(''machine_id'', N (linode_id l)), (''machine_ip'', S (ipv4 l))] @
             (if failures (effects w) = [] then [(''runner_label'', S (baseLabel_of w))]
              else []))
      else [])"
    by (rule outputs_characterised)
next
  fix l
  assume a: "getInput w ''organization'' \<noteq> [] \<and> getInput w ''repo_name'' \<noteq> [] \<and>
        getInput w ''action'' = ''create'' \<and> createLinode_result w = Inr l"
  then obtain post where e: "effects w = log_header w @ created_events w l @ post"
    using create_effects_prefix [of w l] by blast
  let ?pre = "log_header w @ [Info [S ''Creating new Linode instance...'']]"
  let ?post = "Info [S ''Linode instance created with ID '', N (linode_id l), S '' and IP '',
                     S (ipv4 l)] #
               ssh_events w (ipv4 l) (getInput w ''root_password'') @ post"
  have "effects w =
          ?pre @ CreateLinode (create_request_of w) # SetOutput ''machine_id'' (N (linode_id l)) #
          SetOutput ''machine_ip'' (S (ipv4 l)) # ?post"
    by (simp add: e created_events_def)
  moreover have "calls ?pre = []"
    by (simp add: calls_append calls_log_header calls_simps)
  ultimately show "\<exists>pre r post.
           effects w =
             pre @ CreateLinode r # SetOutput ''machine_id'' (N (linode_id l)) #
             SetOutput ''machine_ip'' (S (ipv4 l)) # post \<and>
           calls pre = []"
    by blast
qed

theorem outputs_of_run_witness:
  "outputs (effects w_no_repository) = [] \<and>
   outputs (effects w_create_ssh_never) =
     [(''machine_id'', N 123), (''machine_ip'', S ''192.0.2.7'')] \<and>
   (\<exists>pre r post.
      effects w_create_ssh_never =
        pre @ CreateLinode r # SetOutput ''machine_id'' (N 123) #
        SetOutput ''machine_ip'' (S ''192.0.2.7'') # post \<and>
      calls pre = [])"
proof -
  let ?l = "\<lparr>linode_id = 123, ipv4 = ''192.0.2.7'', label = ''self-hosted'', tags = []\<rparr>"
  have "outputs (effects w_no_repository) = []"
    using outputs_of_run [of w_no_repository, THEN conjunct1]
    by (simp add: w_no_repository_def inputs_of_def)
  moreover have "failures (effects w_create_ssh_never) \<noteq> []"
    by (simp add: effects_ssh_never obs_simps)
  then have "outputs (effects w_create_ssh_never) =
     [(''machine_id'', N 123), (''machine_ip'', S ''192.0.2.7'')]"
    using outputs_of_run [of w_create_ssh_never, THEN conjunct1]
    by (simp add: w_create_ssh_never_def w_ssh_never_def w_base_def create_inputs_def
        inputs_of_def)
  moreover have "getInput w_create_ssh_never ''organization'' \<noteq> [] \<and>
      getInput w_create_ssh_never ''repo_name'' \<noteq> [] \<and>
      getInput w_create_ssh_never ''action'' = ''create'' \<and>
      createLinode_result w_create_ssh_never = Inr ?l"
    by (simp add: w_create_ssh_never_def w_ssh_never_def w_base_def create_inputs_def
        inputs_of_def)
  then have "\<exists>pre r post.
      effects w_create_ssh_never =
        pre @ CreateLinode r # SetOutput ''machine_id'' (N (linode_id ?l)) #
        SetOutput ''machine_ip'' (S (ipv4 ?l)) # post \<and>
      calls pre = []"
    using outputs_of_run [of w_create_ssh_never, THEN conjunct2] by blast
  ultimately show ?thesis by simp
qed

section \<open>The validation of the inputs\<close>

text \<open>
  C7, as the claim states it, fails: the machine type and the image of a create request
  are never checked. A create request without them calls the provider.
\<close>

theorem create_without_type_calls_provider:
  "getInput w_create_no_type ''action'' = ''create'' \<and>
   getInput w_create_no_type ''machine_type'' = [] \<and>
   getInput w_create_no_type ''image'' = [] \<and>
   calls (effects w_create_no_type) =
     [CreateLinode \<lparr>region = ''us-east'', type = [], image = [], root_pass = [],
                    req_label = ''self-hosted'', req_tags = []\<rparr>]"
proof -
  have "effects w_create_no_type =
     log_header w_create_no_type @
     [Info [S ''Creating new Linode instance...''], CreateLinode (create_request_of w_create_no_type),
      SetFailed (message (Error [S ''type is required'']))]"
    by (rule effects_create_rejected)
       (simp_all add: w_create_no_type_def w_base_def inputs_of_def)
  then show ?thesis
    by (simp add: calls_append calls_log_header)
       (simp add: calls_def create_request_of_def baseLabel_of_def js_or_def parse_tags_def
          w_create_no_type_def w_base_def inputs_of_def)
qed

text \<open>
  C7, amended. When the repository owner or the repository name is missing, or the
  action is neither \<open>create\<close> nor \<open>destroy\<close>, or a destroy request has neither
  a machine identifier nor a search phrase, the invocation fails with the message of that
  check, makes no external call and sets no output. A create request with a repository is
  not checked further: its first call is \<open>createLinode\<close>, with the machine type and
  the image as given.
\<close>

theorem invalid_input_fails_before_calls:
  "(getInput w ''organization'' = [] \<or> getInput w ''repo_name'' = [] \<or>
    (getInput w ''action'' \<noteq> ''create'' \<and> getInput w ''action'' \<noteq> ''destroy'') \<or>
    (getInput w ''action'' = ''destroy'' \<and> getInput w ''machine_id'' = [] \<and>
     getInput w ''search_phrase'' = []) \<longrightarrow>
    calls (effects w) = [] \<and> outputs (effects w) = [] \<and>
    failures (effects w) =
      [if getInput w ''organization'' = [] \<or> getInput w ''repo_name'' = [] then
         [S ''Both organization and repo_name inputs are required.'']
       else if getInput w ''action'' = ''destroy'' then
         [S ''Either machine_id or search_phrase must be provided for destruction'']
       else
         [S ''Invalid action. Use '', S [CHR 0x22], S ''create'', S [CHR 0x22],
          S '' or '', S [CHR 0x22], S ''destroy'', S [CHR 0x22], S ''.'']]) \<and>
   (getInput w ''organization'' \<noteq> [] \<and> getInput w ''repo_name'' \<noteq> [] \<and>
    getInput w ''action'' = ''create'' \<longrightarrow>
    (\<exists>rest. calls (effects w) =
       CreateLinode \<lparr>region = ''us-east'', type = getInput w ''machine_type'',
                     image = getInput w ''image'', root_pass = getInput w ''root_password'',
                     req_label = baseLabel_of w,
                     req_tags = parse_tags (getInput w ''tags'')\<rparr> # rest))"
  (is "(?bad \<longrightarrow> ?quiet) \<and> (?ok \<longrightarrow> ?called)")
proof (rule conjI; rule impI)
  assume bad: ?bad
  show ?quiet
  proof (cases "getInput w ''organization'' = [] \<or> getInput w ''repo_name'' = []")
    case True
    then show ?thesis
      by (simp add: effects_no_repository [OF True] calls_append calls_log_header obs_simps)
         (simp add: calls_def)
  next
    case False
    then have o: "getInput w ''organization'' \<noteq> []" and r: "getInput w ''repo_name'' \<noteq> []"
      by simp_all
    show ?thesis
    proof (cases "getInput w ''action'' = ''destroy''")
      case True
      with bad False have "getInput w ''machine_id'' = []" "getInput w ''search_phrase'' = []"
        by auto
      from effects_destroy_no_target [OF o r True this] False True show ?thesis
        by (simp add: calls_append calls_log_header obs_simps) (simp add: calls_def)
    next
      case d: False
      with bad False have c: "getInput w ''action'' \<noteq> ''create''" by auto
      from effects_invalid_action [OF o r c d] False d show ?thesis
        by (simp add: calls_append calls_log_header obs_simps) (simp add: calls_def)
    qed
  qed
next
  assume ok: ?ok
  then have o: "getInput w ''organization'' \<noteq> []" and r: "getInput w ''repo_name'' \<noteq> []"
    and c: "getInput w ''action'' = ''create''"
    by simp_all
  have "\<exists>rest. calls (effects w) = CreateLinode (create_request_of w) # rest"
  proof (cases "createLinode_result w")
    case (Inl e)
    show ?thesis
      by (simp add: effects_create_rejected [OF o r c Inl] calls_append calls_log_header)
         (simp add: calls_def)
  next
    case l: (Inr l)
    show ?thesis
    proof (cases "ssh_result w (ipv4 l) (getInput w ''root_password'')")
      case (Inl e)
      show ?thesis
        by (simp add: effects_create_unreachable [OF o r c l Inl] calls_append calls_log_header
            created_events_def)
           (simp add: calls_def)
    next
      case b: (Inr b)
      show ?thesis
      proof (cases "axios_post_result w")
        case (Inl e)
        show ?thesis
          by (simp add: effects_create_no_token [OF o r c l b Inl] calls_append calls_log_header
              created_events_def)
             (simp add: calls_def)
      next
        case t: (Inr tok)
        show ?thesis
        proof (cases "execSync_result w (ssh_execs w (ipv4 l) (getInput w ''root_password''))")
          case None
          show ?thesis
            by (simp add: effects_create_done [OF o r c l b t None] calls_append calls_log_header
                created_events_def)
               (simp add: calls_def)
        next
          case (Some e)
          show ?thesis
            by (simp add: effects_create_setup_fails [OF o r c l b t Some] calls_append
                calls_log_header created_events_def)
               (simp add: calls_def)
        qed
      qed
    qed
  qed
  then show ?called
    by (simp add: create_request_of_def)
qed

theorem invalid_input_fails_before_calls_witness:
  "calls (effects w_no_repository) = [] \<and>
   failures (effects w_no_repository) =
     [[S ''Both organization and repo_name inputs are required.'']] \<and>
   calls (effects w_bad_action) = [] \<and>
   failures (effects w_bad_action) =
     [[S ''Invalid action. Use '', S [CHR 0x22], S ''create'', S [CHR 0x22],
       S '' or '', S [CHR 0x22], S ''destroy'', S [CHR 0x22], S ''.'']] \<and>
   calls (effects w_destroy_no_target) = [] \<and>
   failures (effects w_destroy_no_target) =
     [[S ''Either machine_id or search_phrase must be provided for destruction'']] \<and>
   (\<exists>rest. calls (effects w_create_no_type) =
      CreateLinode \<lparr>region = ''us-east'', type = [], image = [], root_pass = [],
                    req_label = ''self-hosted'', req_tags = []\<rparr> # rest)"
proof -
  have a: "calls (effects w_no_repository) = [] \<and>
     failures (effects w_no_repository) =
       [[S ''Both organization and repo_name inputs are required.'']]"
    using invalid_input_fails_before_calls [of w_no_repository]
    by (simp add: w_no_repository_def inputs_of_def)
  have b: "calls (effects w_bad_action) = [] \<and>
     failures (effects w_bad_action) =
       [[S ''Invalid action. Use '', S [CHR 0x22], S ''create'', S [CHR 0x22],
         S '' or '', S [CHR 0x22], S ''destroy'', S [CHR 0x22], S ''.'']]"
    using invalid_input_fails_before_calls [of w_bad_action]
    by (simp add: w_bad_action_def inputs_of_def)
  have c: "calls (effects w_destroy_no_target) = [] \<and>
     failures (effects w_destroy_no_target) =
       [[S ''Either machine_id or search_phrase must be provided for destruction'']]"
    using invalid_input_fails_before_calls [of w_destroy_no_target]
    by (simp add: w_destroy_no_target_def inputs_of_def)
  have d: "\<exists>rest. calls (effects w_create_no_type) =
      CreateLinode \<lparr>region = ''us-east'', type = [], image = [], root_pass = [],
                    req_label = ''self-hosted'', req_tags = []\<rparr> # rest"
    using invalid_input_fails_before_calls [of w_create_no_type]
    by (simp add: w_create_no_type_def inputs_of_def baseLabel_of_def js_or_def parse_tags_def)
  from a b c d show ?thesis by blast
qed

section \<open>Destroy requests\<close>

text \<open>
  C3. For every destroy request by phrase (a repository, no machine identifier, a
  phrase), when the list of the instances is obtained and the number of instances that
  match is not 1, no deletion is requested: the only external call is the listing, and
  the invocation fails, with the not-found message when nothing matches and with the
  message for several matches otherwise.
\<close>

theorem destroy_by_phrase_needs_one_match:
  assumes "getInput w ''action'' = ''destroy''"
    and "getInput w ''organization'' \<noteq> []" and "getInput w ''repo_name'' \<noteq> []"
    and "getInput w ''machine_id'' = []" and "getInput w ''search_phrase'' \<noteq> []"
    and "getLinodes_result w = Inr instances"
    and "length (filter (matches (getInput w ''search_phrase'')) instances) \<noteq> 1"
  shows "delete_targets (effects w) = [] \<and>
         calls (effects w) = [GetLinodes] \<and>
         failures (effects w) =
           [if filter (matches (getInput w ''search_phrase'')) instances = [] then
              [S ''No Linode instances found matching the search phrase: '',
               S (getInput w ''search_phrase'')]
            else
              [S ''Multiple Linode instances found matching the search phrase: '',
               S (getInput w ''search_phrase'')]]"
proof (cases "filter (matches (getInput w ''search_phrase'')) instances")
  case Nil
  show ?thesis
    by (simp add: effects_destroy_no_match [OF assms(2,3,1,4,5,6) Nil] Nil calls_append
        calls_log_header calls_simps obs_simps)
next
  case (Cons a rest)
  with assms(7) obtain b rest' where "rest = b # rest'"
    by (cases rest) auto
  with Cons have many: "filter (matches (getInput w ''search_phrase'')) instances = a # b # rest'"
    by simp
  show ?thesis
    by (simp add: effects_destroy_many_matches [OF assms(2,3,1,4,5,6) many] many calls_append
        calls_log_header calls_simps obs_simps)
qed

theorem destroy_by_phrase_needs_one_match_witness:
  "length (filter (matches (getInput w_destroy_two_matches ''search_phrase''))
     [\<lparr>linode_id = 1, ipv4 = ''192.0.2.1'', label = ''ci-runner-7'', tags = []\<rparr>,
      \<lparr>linode_id = 2, ipv4 = ''192.0.2.2'', label = ''ci-runner-70'', tags = []\<rparr>,
      \<lparr>linode_id = 3, ipv4 = ''192.0.2.3'', label = ''database'', tags = [''prod'']\<rparr>]) = 2 \<and>
   delete_targets (effects w_destroy_two_matches) = [] \<and>
   calls (effects w_destroy_two_matches) = [GetLinodes] \<and>
   failures (effects w_destroy_two_matches) =
     [[S ''Multiple Linode instances found matching the search phrase: '', S ''ci-runner-7'']]"
proof -
  let ?is = "[\<lparr>linode_id = 1, ipv4 = ''192.0.2.1'', label = ''ci-runner-7'', tags = []\<rparr>,
      \<lparr>linode_id = 2, ipv4 = ''192.0.2.2'', label = ''ci-runner-70'', tags = []\<rparr>,
      \<lparr>linode_id = 3, ipv4 = ''192.0.2.3'', label = ''database'', tags = [''prod'']\<rparr>]"
  have p: "getInput w_destroy_two_matches ''search_phrase'' = ''ci-runner-7''"
    by (simp add: w_destroy_two_matches_def inputs_of_def)
  have h1: "getInput w_destroy_two_matches ''action'' = ''destroy''"
    and h2: "getInput w_destroy_two_matches ''organization'' \<noteq> []"
    and h3: "getInput w_destroy_two_matches ''repo_name'' \<noteq> []"
    and h4: "getInput w_destroy_two_matches ''machine_id'' = []"
    and h5: "getInput w_destroy_two_matches ''search_phrase'' \<noteq> []"
    and h6: "getLinodes_result w_destroy_two_matches = Inr ?is"
    by (simp_all add: w_destroy_two_matches_def inputs_of_def)
  have f: "filter (matches ''ci-runner-7'') ?is =
     [\<lparr>linode_id = 1, ipv4 = ''192.0.2.1'', label = ''ci-runner-7'', tags = []\<rparr>,
      \<lparr>linode_id = 2, ipv4 = ''192.0.2.2'', label = ''ci-runner-70'', tags = []\<rparr>]"
    by (simp add: matches_def array_includes_def)
  have h7: "length (filter (matches (getInput w_destroy_two_matches ''search_phrase'')) ?is) \<noteq> 1"
    unfolding p f by simp
  show ?thesis
    using destroy_by_phrase_needs_one_match [OF h1 h2 h3 h4 h5 h6 h7]
    unfolding p f by simp
qed

text \<open>
  C2, as the claim states it, fails: \<open>unregisterRunner\<close> logs an error it catches
  and throws it again (line 65), and the destroy branch has no \<open>catch\<close> of its own.
  When the request that deletes the runner is rejected with status 500, the invocation
  fails with that error and the instance is not deleted.
\<close>

theorem unregistration_failure_skips_delete:
  "getInput w_destroy_unreg_500 ''action'' = ''destroy'' \<and>
   destroy_target w_destroy_unreg_500 = Some (S ''123'') \<and>
   axios_delete_result w_destroy_unreg_500 7 =
     Inl (RequestError [S ''Request failed with status code 500'']
            (Some (500, ''Internal Server Error''))) \<and>
   unregistration w_destroy_unreg_500 =
     Inl (RequestError [S ''Request failed with status code 500'']
            (Some (500, ''Internal Server Error''))) \<and>
   delete_targets (effects w_destroy_unreg_500) = [] \<and>
   failures (effects w_destroy_unreg_500) = [[S ''Request failed with status code 500'']]"
proof -
  have e: "effects w_destroy_unreg_500 =
     log_header w_destroy_unreg_500 @
     [Info [S ''Destroying Linode instance with ID '',
            S (getInput w_destroy_unreg_500 ''machine_id''), S ''...'']] @
     destroy_events w_destroy_unreg_500 (S (getInput w_destroy_unreg_500 ''machine_id''))"
    by (rule effects_destroy_by_id) (simp_all add: destroy_world_simps)
  have "delete_targets (effects w_destroy_unreg_500) = []"
    and "failures (effects w_destroy_unreg_500) = [[S ''Request failed with status code 500'']]"
    unfolding e by (simp_all add: obs_simps unregistration_500)
  moreover have "getInput w_destroy_unreg_500 ''action'' = ''destroy''"
    and "destroy_target w_destroy_unreg_500 = Some (S ''123'')"
    and "axios_delete_result w_destroy_unreg_500 7 =
           Inl (RequestError [S ''Request failed with status code 500'']
                  (Some (500, ''Internal Server Error'')))"
    by (simp_all add: destroy_target_def destroy_world_simps)
  ultimately show ?thesis using unregistration_500 by simp
qed

text \<open>
  C2, amended. For every destroy request that has resolved a target instance, the
  unregistration step returns exactly when the request for the runners resolves and
  either no runner has the label or the request that deletes the first such runner
  resolves, whatever its status; a status other than 204 is logged as an error. Then
  the deletion of the target is requested exactly once, after the calls of the
  unregistration. The step throws exactly when one of its two requests is rejected
  (status 422 included): the error is logged, the invocation fails with it and no
  deletion is requested.
\<close>

theorem destroy_after_unregistration:
  assumes "getInput w ''action'' = ''destroy''"
    and "getInput w ''organization'' \<noteq> []" and "getInput w ''repo_name'' \<noteq> []"
    and "destroy_target w = Some t"
  shows
    "(unregistration w = Inr () \<longrightarrow>
        delete_targets (effects w) = [t] \<and>
        (\<exists>pre post. effects w = pre @ unregistration_events w @ DeleteLinode t # post)) \<and>
     (\<forall>e. unregistration w = Inl e \<longrightarrow>
        delete_targets (effects w) = [] \<and> failures (effects w) = [message e] \<and>
        last (unregistration_events w) =
          LogError (case response e of
                      Some (status, statusText) \<Rightarrow>
                        if status = 422 then
                          [S ''Failed to unregister runner: '', N status, S '' - '', S statusText]
                        else S ''Failed to unregister runner: '' # message e
                    | None \<Rightarrow> S ''Failed to unregister runner: '' # message e)) \<and>
     (\<forall>runners r status statusText.
        axios_get_result w = Inr runners \<and>
        find (\<lambda>r. list_ex (\<lambda>l. l = baseLabel_of w) (labels r)) runners = Some r \<and>
        axios_delete_result w (runner_id r) = Inr (status, statusText) \<and> status \<noteq> 204 \<longrightarrow>
        unregistration w = Inr () \<and>
        last (unregistration_events w) =
          LogError [S ''Failed to unregister runner: '', N status, S '' - '', S statusText]) \<and>
     (\<forall>e. axios_get_result w = Inl e \<longrightarrow> unregistration w = Inl e) \<and>
     (\<forall>runners r e.
        axios_get_result w = Inr runners \<and>
        find (\<lambda>r. list_ex (\<lambda>l. l = baseLabel_of w) (labels r)) runners = Some r \<and>
        axios_delete_result w (runner_id r) = Inl e \<longrightarrow>
        unregistration w = Inl e) \<and>
     unregistration w =
       (case axios_get_result w of
          Inl e \<Rightarrow> Inl e
        | Inr runners \<Rightarrow>
            (case find (\<lambda>r. list_ex (\<lambda>l. l = js_or (getInput w ''runner_label'') ''self-hosted'')
                               (labels r)) runners of
               None \<Rightarrow> Inr ()
             | Some r \<Rightarrow>
                 (case axios_delete_result w (runner_id r) of
                    Inl e \<Rightarrow> Inl e
                  | Inr st \<Rightarrow> Inr ()))) \<and>
     delete_targets (effects w) =
       (case axios_get_result w of
          Inl e \<Rightarrow> []
        | Inr runners \<Rightarrow>
            (case find (\<lambda>r. list_ex (\<lambda>l. l = js_or (getInput w ''runner_label'') ''self-hosted'')
                               (labels r)) runners of
               None \<Rightarrow> [t]
             | Some r \<Rightarrow>
                 (case axios_delete_result w (runner_id r) of
                    Inl e \<Rightarrow> []
                  | Inr st \<Rightarrow> [t]))) \<and>
     calls (effects w) =
       (if getInput w ''machine_id'' \<noteq> [] then [] else [GetLinodes]) @
       AxiosGet (runners_url (getInput w ''organization'') (getInput w ''repo_name''))
         (getInput w ''github_token'') #
       (case axios_get_result w of
          Inl e \<Rightarrow> []
        | Inr runners \<Rightarrow>
            (case find (\<lambda>r. list_ex (\<lambda>l. l = js_or (getInput w ''runner_label'') ''self-hosted'')
                               (labels r)) runners of
               None \<Rightarrow> [DeleteLinode t]
             | Some r \<Rightarrow>
                 AxiosDelete
                   (runners_url (getInput w ''organization'') (getInput w ''repo_name'') @
                    [S ''/'', N (runner_id r)])
                   (getInput w ''github_token'') #
                 (case axios_delete_result w (runner_id r) of
                    Inl e \<Rightarrow> []
                  | Inr st \<Rightarrow> [DeleteLinode t])))"
  using destroy_unregistration_cases [OF assms] unregistration_outcome_inputs [of w]
    destroy_delete_targets [OF assms] destroy_calls [OF assms]
  by (intro conjI) blast+

theorem destroy_after_unregistration_witness:
  "destroy_target w_destroy_no_runner = Some (S ''123'') \<and>
   calls (effects w_destroy_no_runner) =
     [AxiosGet (runners_url ''acme'' ''widgets'') ''ghp_token'', DeleteLinode (S ''123'')] \<and>
   destroy_target w_destroy_unreg_204 = Some (S ''123'') \<and>
   calls (effects w_destroy_unreg_204) =
     [AxiosGet (runners_url ''acme'' ''widgets'') ''ghp_token'',
      AxiosDelete (runners_url ''acme'' ''widgets'' @ [S ''/'', N 7]) ''ghp_token'',
      DeleteLinode (S ''123'')] \<and>
   destroy_target w_destroy_unreg_202 = Some (S ''123'') \<and>
   delete_targets (effects w_destroy_unreg_202) = [S ''123''] \<and>
   last (unregistration_events w_destroy_unreg_202) =
     LogError [S ''Failed to unregister runner: '', N 202, S '' - '', S ''Accepted''] \<and>
   destroy_target w_destroy_unreg_500 = Some (S ''123'') \<and>
   delete_targets (effects w_destroy_unreg_500) = [] \<and>
   failures (effects w_destroy_unreg_500) = [[S ''Request failed with status code 500'']] \<and>
   last (unregistration_events w_destroy_unreg_500) =
     LogError [S ''Failed to unregister runner: '', S ''Request failed with status code 500'']"
proof -
  have a: "getInput w_destroy_no_runner ''action'' = ''destroy''"
    "getInput w_destroy_no_runner ''organization'' \<noteq> []"
    "getInput w_destroy_no_runner ''repo_name'' \<noteq> []"
    "destroy_target w_destroy_no_runner = Some (S ''123'')"
    by (simp_all add: destroy_target_def unreg_world_simps)
  have b: "getInput w_destroy_unreg_204 ''action'' = ''destroy''"
    "getInput w_destroy_unreg_204 ''organization'' \<noteq> []"
    "getInput w_destroy_unreg_204 ''repo_name'' \<noteq> []"
    "destroy_target w_destroy_unreg_204 = Some (S ''123'')"
    by (simp_all add: destroy_target_def unreg_world_simps)
  have c: "getInput w_destroy_unreg_202 ''action'' = ''destroy''"
    "getInput w_destroy_unreg_202 ''organization'' \<noteq> []"
    "getInput w_destroy_unreg_202 ''repo_name'' \<noteq> []"
    "destroy_target w_destroy_unreg_202 = Some (S ''123'')"
    by (simp_all add: destroy_target_def unreg_world_simps)
  have d: "getInput w_destroy_unreg_500 ''action'' = ''destroy''"
    "getInput w_destroy_unreg_500 ''organization'' \<noteq> []"
    "getInput w_destroy_unreg_500 ''repo_name'' \<noteq> []"
    "destroy_target w_destroy_unreg_500 = Some (S ''123'')"
    by (simp_all add: destroy_target_def unreg_world_simps)
  note ta = destroy_after_unregistration [OF a]
  note tb = destroy_after_unregistration [OF b]
  note tc = destroy_after_unregistration [OF c]
  note td = destroy_after_unregistration [OF d]
  have 1: "calls (effects w_destroy_no_runner) =
     [AxiosGet (runners_url ''acme'' ''widgets'') ''ghp_token'', DeleteLinode (S ''123'')]"
    using ta by (simp add: js_or_def unreg_world_simps)
  have 2: "calls (effects w_destroy_unreg_204) =
     [AxiosGet (runners_url ''acme'' ''widgets'') ''ghp_token'',
      AxiosDelete (runners_url ''acme'' ''widgets'' @ [S ''/'', N 7]) ''ghp_token'',
      DeleteLinode (S ''123'')]"
    using tb by (simp add: js_or_def unreg_world_simps)
  have n: "(202::nat) \<noteq> 204" by simp
  have g: "axios_get_result w_destroy_unreg_202 =
             Inr [\<lparr>runner_id = 7, labels = [''self-hosted'', ''linux'']\<rparr>]"
    and f: "find (\<lambda>r. list_ex (\<lambda>l. l = baseLabel_of w_destroy_unreg_202) (labels r))
              [\<lparr>runner_id = 7, labels = [''self-hosted'', ''linux'']\<rparr>] =
            Some \<lparr>runner_id = 7, labels = [''self-hosted'', ''linux'']\<rparr>"
    and x: "axios_delete_result w_destroy_unreg_202
              (runner_id \<lparr>runner_id = 7, labels = [''self-hosted'', ''linux'']\<rparr>) =
            Inr (202, ''Accepted'')"
    by (simp_all add: baseLabel_of_def js_or_def destroy_world_simps)
  have 3: "delete_targets (effects w_destroy_unreg_202) = [S ''123'']"
    using tc unregistration_202 by blast
  have 4: "last (unregistration_events w_destroy_unreg_202) =
     LogError [S ''Failed to unregister runner: '', N 202, S '' - '', S ''Accepted'']"
    using tc g f x n by blast
  have 5: "delete_targets (effects w_destroy_unreg_500) = [] \<and>
     failures (effects w_destroy_unreg_500) = [[S ''Request failed with status code 500'']] \<and>
     last (unregistration_events w_destroy_unreg_500) =
       LogError [S ''Failed to unregister runner: '', S ''Request failed with status code 500'']"
    using td unregistration_500 by auto
  from 1 2 3 4 5 a(4) b(4) c(4) d(4) show ?thesis by simp
qed

text \<open>
  C10, as the claim states it, fails: the instance with the given identifier is not
  always deleted. With both inputs given and the request that deletes the runner
  rejected with status 500, the invocation fails and nothing is deleted.
\<close>

theorem both_given_rejected_unregistration:
  "getInput w_both_500 ''action'' = ''destroy'' \<and>
   getInput w_both_500 ''machine_id'' = ''123'' \<and>
   getInput w_both_500 ''search_phrase'' = ''database'' \<and>
   axios_delete_result w_both_500 7 =
     Inl (RequestError [S ''Request failed with status code 500'']
            (Some (500, ''Internal Server Error''))) \<and>
   delete_targets (effects w_both_500) = [] \<and>
   failures (effects w_both_500) = [[S ''Request failed with status code 500'']]"
proof -
  have h: "getInput w_both_500 ''action'' = ''destroy''"
    "getInput w_both_500 ''organization'' \<noteq> []"
    "getInput w_both_500 ''repo_name'' \<noteq> []"
    "destroy_target w_both_500 = Some (S ''123'')"
    by (simp_all add: destroy_target_def w_both_500_def w_both_def both_inputs_def inputs_of_def)
  have a: "axios_get_result w_both_500 =
             Inr [\<lparr>runner_id = 7, labels = [''self-hosted'', ''linux'']\<rparr>]"
    and b: "js_or (getInput w_both_500 ''runner_label'') ''self-hosted'' = ''self-hosted''"
    and c: "axios_delete_result w_both_500 7 =
              Inl (RequestError [S ''Request failed with status code 500'']
                     (Some (500, ''Internal Server Error'')))"
    by (simp_all add: js_or_def w_both_500_def w_both_def both_inputs_def inputs_of_def)
  have "delete_targets (effects w_both_500) = []"
    by (simp add: destroy_delete_targets [OF h] a b c)
  moreover have "unregistration w_both_500 =
     Inl (RequestError [S ''Request failed with status code 500'']
            (Some (500, ''Internal Server Error'')))"
    by (simp add: unregistration_outcome_inputs a b c)
  then have "failures (effects w_both_500) = [[S ''Request failed with status code 500'']]"
    by (simp add: destroy_failures [OF h])
  moreover have "getInput w_both_500 ''machine_id'' = ''123''"
    "getInput w_both_500 ''search_phrase'' = ''database''"
    by (simp_all add: w_both_500_def w_both_def both_inputs_def inputs_of_def)
  ultimately show ?thesis using h(1) c by simp
qed

text \<open>
  C10, amended. For every destroy request with a repository in which both a machine
  identifier and a search phrase are given, the identifier decides and the phrase has no
  effect: the instances are never listed and the whole trace is the one of the same
  request without the phrase. The external calls are the request for the runners, then
  the request that deletes the first runner with the label when there is one, then,
  unless one of these two requests is rejected, the deletion of the instance with the
  given identifier, which is the only deletion ever requested. When a request of the
  unregistration is rejected the invocation fails with that error and nothing is deleted.
\<close>

theorem machine_id_takes_precedence:
  assumes "getInput w ''action'' = ''destroy''"
    and "getInput w ''organization'' \<noteq> []" and "getInput w ''repo_name'' \<noteq> []"
    and "getInput w ''machine_id'' \<noteq> []" and "getInput w ''search_phrase'' \<noteq> []"
  shows "GetLinodes \<notin> set (effects w) \<and>
         calls (effects w) =
           AxiosGet (runners_url (getInput w ''organization'') (getInput w ''repo_name''))
             (getInput w ''github_token'') #
           (case axios_get_result w of
              Inl e \<Rightarrow> []
            | Inr runners \<Rightarrow>
                (case find (\<lambda>r. list_ex (\<lambda>l. l = js_or (getInput w ''runner_label'')
                                                   ''self-hosted'') (labels r)) runners of
                   None \<Rightarrow> [DeleteLinode (S (getInput w ''machine_id''))]
                 | Some r \<Rightarrow>
                     AxiosDelete
                       (runners_url (getInput w ''organization'') (getInput w ''repo_name'') @
                        [S ''/'', N (runner_id r)])
                       (getInput w ''github_token'') #
                     (case axios_delete_result w (runner_id r) of
                        Inl e \<Rightarrow> []
                      | Inr st \<Rightarrow> [DeleteLinode (S (getInput w ''machine_id''))]))) \<and>
         failures (effects w) =
           (case axios_get_result w of
              Inl e \<Rightarrow> [message e]
            | Inr runners \<Rightarrow>
                (case find (\<lambda>r. list_ex (\<lambda>l. l = js_or (getInput w ''runner_label'')
                                                   ''self-hosted'') (labels r)) runners of
                   None \<Rightarrow>
                     (case deleteLinode_result w (S (getInput w ''machine_id'')) of
                        None \<Rightarrow> []
                      | Some e \<Rightarrow> [message e])
                 | Some r \<Rightarrow>
                     (case axios_delete_result w (runner_id r) of
                        Inl e \<Rightarrow> [message e]
                      | Inr st \<Rightarrow>
                          (case deleteLinode_result w (S (getInput w ''machine_id'')) of
                             None \<Rightarrow> []
                           | Some e \<Rightarrow> [message e])))) \<and>
         effects w = effects (w\<lparr>getInput := (getInput w)(''search_phrase'' := [])\<rparr>)"
proof -
  have t: "destroy_target w = Some (S (getInput w ''machine_id''))"
    using assms(4) by (simp add: destroy_target_def)
  from destroy_by_id_ignores_phrase [OF assms]
  have 1: "GetLinodes \<notin> set (effects w)"
    and 4: "effects w = effects (w\<lparr>getInput := (getInput w)(''search_phrase'' := [])\<rparr>)"
    by blast+
  note 2 = destroy_calls [OF assms(1,2,3) t]
  have 3: "failures (effects w) =
           (case axios_get_result w of
              Inl e \<Rightarrow> [message e]
            | Inr runners \<Rightarrow>
                (case find (\<lambda>r. list_ex (\<lambda>l. l = js_or (getInput w ''runner_label'')
                                                   ''self-hosted'') (labels r)) runners of
                   None \<Rightarrow>
                     (case deleteLinode_result w (S (getInput w ''machine_id'')) of
                        None \<Rightarrow> []
                      | Some e \<Rightarrow> [message e])
                 | Some r \<Rightarrow>
                     (case axios_delete_result w (runner_id r) of
                        Inl e \<Rightarrow> [message e]
                      | Inr st \<Rightarrow>
                          (case deleteLinode_result w (S (getInput w ''machine_id'')) of
                             None \<Rightarrow> []
                           | Some e \<Rightarrow> [message e]))))"
    by (simp add: destroy_failures [OF assms(1,2,3) t] unregistration_outcome_inputs
        split: sum.splits option.splits)
  from 1 2 3 4 assms(4) show ?thesis by simp
qed

theorem machine_id_takes_precedence_witness:
  "getInput w_both ''machine_id'' = ''123'' \<and>
   getInput w_both ''search_phrase'' = ''database'' \<and>
   GetLinodes \<notin> set (effects w_both) \<and>
   calls (effects w_both) =
     [AxiosGet (runners_url ''acme'' ''widgets'') ''ghp_token'',
      AxiosDelete (runners_url ''acme'' ''widgets'' @ [S ''/'', N 7]) ''ghp_token'',
      DeleteLinode (S ''123'')] \<and>
   failures (effects w_both) = []"
proof -
  have h: "getInput w_both ''action'' = ''destroy''"
    "getInput w_both ''organization'' \<noteq> []"
    "getInput w_both ''repo_name'' \<noteq> []"
    "getInput w_both ''machine_id'' \<noteq> []"
    "getInput w_both ''search_phrase'' \<noteq> []"
    by (simp_all add: w_both_def both_inputs_def inputs_of_def)
  have i: "getInput w_both ''machine_id'' = ''123''"
    "getInput w_both ''search_phrase'' = ''database''"
    "getInput w_both ''organization'' = ''acme''"
    "getInput w_both ''repo_name'' = ''widgets''"
    "getInput w_both ''github_token'' = ''ghp_token''"
    "js_or (getInput w_both ''runner_label'') ''self-hosted'' = ''self-hosted''"
    by (simp_all add: js_or_def w_both_def both_inputs_def inputs_of_def)
  have a: "axios_get_result w_both =
             Inr [\<lparr>runner_id = 7, labels = [''self-hosted'', ''linux'']\<rparr>]"
    and c: "axios_delete_result w_both 7 = Inr (204, ''No Content'')"
    and d: "deleteLinode_result w_both (S ''123'') = None"
    by (simp_all add: w_both_def w_destroy_two_matches_def w_base_def)
  note t = machine_id_takes_precedence [OF h]
  have 1: "GetLinodes \<notin> set (effects w_both)"
    by (rule t [THEN conjunct1])
  have 2: "calls (effects w_both) =
       [AxiosGet (runners_url ''acme'' ''widgets'') ''ghp_token'',
        AxiosDelete (runners_url ''acme'' ''widgets'' @ [S ''/'', N 7]) ''ghp_token'',
        DeleteLinode (S ''123'')]"
    by (simp add: t [THEN conjunct2, THEN conjunct1] i a c)
  have 3: "failures (effects w_both) = []"
    by (simp add: t [THEN conjunct2, THEN conjunct2, THEN conjunct1] i a c d)
  from 1 2 3 i show ?thesis by simp
qed

end
